theory Spec2Isabelle
  imports Main "HOL-Library.Word"
begin

section \<open>The connection handle of RPostgres (DbConnection.cpp)\<close>

text \<open>
  DbConnection wraps one libpq connection.  Everything it does is a sequence of calls
  into libpq and into the R API, so the model threads an explicit state through every
  member function: the object's fields, the state of the outside world that the
  libraries read and change, the list of library calls made so far (with what each
  returned), and the warnings handed to R.  An Rcpp \<open>stop\<close> is a value of type
  \<open>error\<close>; the state at the throw is kept, since what was done before it stays
  done.

  libpq, the R API, \<open>DbResult::complete\<close> (DbResult.h) and
  \<open>encode_row_in_buffer\<close> (encode.h) are not part of DbConnection.cpp.  They are
  parameters of the model, collected in the record \<open>env\<close>; every theorem holds for
  every such environment.  The logging macros \<open>LOG_VERBOSE\<close> and \<open>LOG_DEBUG\<close>
  only write to a log and are left out, as is \<open>info\<close>, which reads the connection's
  properties after \<open>check_connection\<close>.  Columns are ordinary R vectors, shorter than
  \<open>2^31\<close>, so the \<open>int\<close> row counter of \<open>copy_data\<close> is a natural number here.
\<close>

subsection \<open>Pointers, status codes and errors\<close>

text \<open>A C pointer is \<open>None\<close> (NULL) or the address of an object.\<close>

type_synonym PGconn = "nat option"
type_synonym PGresult = "nat option"
type_synonym PGcancel = "nat option"
type_synonym DbResult = "nat option"
type_synonym SEXP = nat

text \<open>The two status enumerations of libpq-fe.h.\<close>

datatype ConnStatusType =
    CONNECTION_OK | CONNECTION_BAD | CONNECTION_STARTED | CONNECTION_MADE
  | CONNECTION_AWAITING_RESPONSE | CONNECTION_AUTH_OK | CONNECTION_SETENV
  | CONNECTION_SSL_STARTUP | CONNECTION_NEEDED

datatype ExecStatusType =
    PGRES_EMPTY_QUERY | PGRES_COMMAND_OK | PGRES_TUPLES_OK | PGRES_COPY_OUT
  | PGRES_COPY_IN | PGRES_BAD_RESPONSE | PGRES_NONFATAL_ERROR | PGRES_FATAL_ERROR
  | PGRES_COPY_BOTH | PGRES_SINGLE_TUPLE

text \<open>
  Every failure of DbConnection.cpp is Rcpp's \<open>stop\<close> with a message; the code has
  no second exception class.  \<open>Undefined_behaviour\<close> stands for the two places
  where the C++ has no defined meaning: indexing \<open>values\<close> beyond its size in the
  constructor, and handing a NULL buffer to \<open>Rf_mkCharCE\<close>.
\<close>

datatype error = Rcpp_stop string | Undefined_behaviour

subsection \<open>Library calls\<close>

text \<open>One entry of the call log: the function, its arguments and what it returned.\<close>

datatype extern_call =
    Call_PQconnectdbParams "string option list" "string option list" bool PGconn
  | Call_PQsetClientEncoding PGconn string
  | Call_PQfinish PGconn
  | Call_PQstatus PGconn ConnStatusType
  | Call_PQreset PGconn
  | Call_PQerrorMessage PGconn string
  | Call_PQgetCancel PGconn PGcancel
  | Call_PQcancel PGcancel int string
  | Call_PQfreeCancel PGcancel
  | Call_PQgetResult PGconn PGresult
  | Call_PQclear PGresult
  | Call_PQexec PGconn string PGresult
  | Call_PQresultStatus PGresult ExecStatusType
  | Call_PQputCopyData PGconn string int int
  | Call_PQputCopyEnd PGconn int
  | Call_PQescapeLiteral PGconn string "string option"
  | Call_PQescapeIdentifier PGconn string "string option"
  | Call_PQfreemem "string option"
  | Call_Rf_mkCharCE string SEXP

text \<open>
  The environment.  \<open>'w\<close> is the state of the world outside the object (server,
  socket, libpq's and R's heaps); \<open>'c\<close> is the type of a cell of the data frame.
  \<open>PQstatus\<close>, \<open>PQerrorMessage\<close> and \<open>PQresultStatus\<close> only read.
  \<open>PQcancel\<close> returns its int and the contents of \<open>errbuf\<close>.  A \<open>char*\<close>
  result is the C string it points to, or \<open>None\<close> for NULL.
\<close>

record ('w, 'c) env =
  PQconnectdbParams :: "string option list \<Rightarrow> string option list \<Rightarrow> bool \<Rightarrow> 'w \<Rightarrow> PGconn \<times> 'w"
  PQsetClientEncoding :: "PGconn \<Rightarrow> string \<Rightarrow> 'w \<Rightarrow> 'w"
  PQfinish :: "PGconn \<Rightarrow> 'w \<Rightarrow> 'w"
  PQstatus :: "PGconn \<Rightarrow> 'w \<Rightarrow> ConnStatusType"
  PQreset :: "PGconn \<Rightarrow> 'w \<Rightarrow> 'w"
  PQerrorMessage :: "PGconn \<Rightarrow> 'w \<Rightarrow> string"
  PQgetCancel :: "PGconn \<Rightarrow> 'w \<Rightarrow> PGcancel \<times> 'w"
  PQcancel :: "PGcancel \<Rightarrow> 'w \<Rightarrow> (int \<times> string) \<times> 'w"
  PQfreeCancel :: "PGcancel \<Rightarrow> 'w \<Rightarrow> 'w"
  PQgetResult :: "PGconn \<Rightarrow> 'w \<Rightarrow> PGresult \<times> 'w"
  PQclear :: "PGresult \<Rightarrow> 'w \<Rightarrow> 'w"
  PQexec :: "PGconn \<Rightarrow> string \<Rightarrow> 'w \<Rightarrow> PGresult \<times> 'w"
  PQresultStatus :: "PGresult \<Rightarrow> 'w \<Rightarrow> ExecStatusType"
  PQputCopyData :: "PGconn \<Rightarrow> string \<Rightarrow> int \<Rightarrow> 'w \<Rightarrow> int \<times> 'w"
  PQputCopyEnd :: "PGconn \<Rightarrow> 'w \<Rightarrow> int \<times> 'w"
  PQescapeLiteral :: "PGconn \<Rightarrow> string \<Rightarrow> 'w \<Rightarrow> string option \<times> 'w"
  PQescapeIdentifier :: "PGconn \<Rightarrow> string \<Rightarrow> 'w \<Rightarrow> string option \<times> 'w"
  PQfreemem :: "string option \<Rightarrow> 'w \<Rightarrow> 'w"
  Rf_mkCharCE :: "string \<Rightarrow> 'w \<Rightarrow> SEXP \<times> 'w"
  complete :: "nat \<Rightarrow> 'w \<Rightarrow> bool"
  encode_row_in_buffer :: "'c list list \<Rightarrow> nat \<Rightarrow> string \<Rightarrow> string"

subsection \<open>The object and the state around it\<close>

text \<open>
  The data members of the class; the source writes each name with a trailing underscore
  (\<^verbatim>\<open>pConn_\<close>, \<^verbatim>\<open>pCurrentResult_\<close>, \<^verbatim>\<open>transacting_\<close>,
  \<^verbatim>\<open>check_interrupts_\<close>), which is not an identifier here.
\<close>

record DbConnection =
  pConn :: PGconn
  pCurrentResult :: DbResult
  transacting :: bool
  check_interrupts :: bool

text \<open>
  \<open>null_static\<close> is the function-local \<open>static RObject null\<close> of
  \<open>get_null_string\<close>: \<open>None\<close> until its declaration has been passed once.
\<close>

record 'w state =
  this :: DbConnection
  world :: 'w
  calls :: "extern_call list"
  warnings :: "string list"
  null_static :: "SEXP option"

definition called :: "extern_call \<Rightarrow> 'w \<Rightarrow> 'w state \<Rightarrow> 'w state" where
  "called c w st = st\<lparr>world := w, calls := calls st @ [c]\<rparr>"

definition warning :: "string \<Rightarrow> 'w state \<Rightarrow> 'w state" where
  "warning msg st = st\<lparr>warnings := warnings st @ [msg]\<rparr>"

definition conn :: "'w state \<Rightarrow> PGconn" where
  "conn st = pConn (this st)"

subsection \<open>Errors with the native text: \<open>conn_stop\<close>\<close>

text \<open>\<open>stop("%s: %s", msg, PQerrorMessage(conn))\<close>.\<close>

definition conn_stop :: "('w, 'c) env \<Rightarrow> string \<Rightarrow> 'w state \<Rightarrow> (error + 'a) \<times> 'w state" where
  "conn_stop E msg st =
     (let txt = PQerrorMessage E (conn st) (world st)
      in (Inl (Rcpp_stop (msg @ '': '' @ txt)),
          called (Call_PQerrorMessage (conn st) txt) (world st) st))"

subsection \<open>\<open>check_connection\<close>\<close>

definition check_connection :: "('w, 'c) env \<Rightarrow> 'w state \<Rightarrow> (error + unit) \<times> 'w state" where
  "check_connection E st =
     (if pConn (this st) = None then (Inl (Rcpp_stop ''Disconnected''), st)
      else
        let status = PQstatus E (pConn (this st)) (world st);
            st1 = called (Call_PQstatus (pConn (this st)) status) (world st) st
        in if status = CONNECTION_OK then (Inr (), st1)
           else
             let st2 = called (Call_PQreset (pConn (this st1)))
                         (PQreset E (pConn (this st1)) (world st1)) st1;
                 status' = PQstatus E (pConn (this st2)) (world st2);
                 st3 = called (Call_PQstatus (pConn (this st2)) status') (world st2) st2
             in if status' = CONNECTION_OK then (Inr (), st3)
                else conn_stop E ''Lost connection to database'' st3)"

subsection \<open>Constructor and \<open>disconnect\<close>\<close>

text \<open>
  The constructor builds the two NULL-terminated arrays, connects, and on a status other
  than \<open>CONNECTION_OK\<close> takes the error text, finishes the handle and stops with
  that text.  Its loop reads \<open>values[i]\<close> for every index of \<open>keys\<close>, which is
  undefined when \<open>values\<close> is the shorter vector.  The load is into the storage
  \<open>this\<close>; after a throw there is no object, and \<open>this\<close> is not to be read.
\<close>

definition DbConnection_new ::
  "('w, 'c) env \<Rightarrow> string list \<Rightarrow> string list \<Rightarrow> bool \<Rightarrow> 'w state \<Rightarrow> (error + unit) \<times> 'w state" where
  "DbConnection_new E keys vals chk st =
     (let n = length keys;
          st0 = st\<lparr>this := (this st)\<lparr>pCurrentResult := None, transacting := False,
                                        check_interrupts := chk\<rparr>\<rparr>
      in if length vals < n then (Inl Undefined_behaviour, st0)
         else
           let c_keys = map Some keys @ [None];
               c_values = map Some (take n vals) @ [None]
           in case PQconnectdbParams E c_keys c_values False (world st0) of
                (p, w) \<Rightarrow>
                  let st1 = called (Call_PQconnectdbParams c_keys c_values False p) w
                              (st0\<lparr>this := (this st0)\<lparr>pConn := p\<rparr>\<rparr>);
                      status = PQstatus E (conn st1) (world st1);
                      st2 = called (Call_PQstatus (conn st1) status) (world st1) st1
                  in if status \<noteq> CONNECTION_OK then
                       let err = PQerrorMessage E (conn st2) (world st2);
                           st3 = called (Call_PQerrorMessage (conn st2) err) (world st2) st2;
                           st4 = called (Call_PQfinish (conn st3))
                                   (PQfinish E (conn st3) (world st3)) st3
                       in (Inl (Rcpp_stop err), st4)
                     else
                       (Inr (), called (Call_PQsetClientEncoding (conn st2) ''UTF-8'')
                                  (PQsetClientEncoding E (conn st2) ''UTF-8'' (world st2)) st2))"

text \<open>
  \<open>disconnect\<close> calls \<open>PQfinish\<close> on whatever \<open>pConn_\<close> holds, NULL included,
  and then stores NULL.  The body sits in \<open>try { } catch (...) { }\<close> and the C call
  throws nothing, so there is no error result.
\<close>

definition disconnect :: "('w, 'c) env \<Rightarrow> 'w state \<Rightarrow> 'w state" where
  "disconnect E st =
     (let st1 = called (Call_PQfinish (pConn (this st)))
                  (PQfinish E (pConn (this st)) (world st)) st
      in st1\<lparr>this := (this st1)\<lparr>pConn := None\<rparr>\<rparr>)"

subsection \<open>Cancelling and draining\<close>

definition cancel_query :: "('w, 'c) env \<Rightarrow> 'w state \<Rightarrow> (error + unit) \<times> 'w state" where
  "cancel_query E st =
     (case check_connection E st of
        (Inl e, st1) \<Rightarrow> (Inl e, st1)
      | (Inr _, st1) \<Rightarrow>
          (case PQgetCancel E (pConn (this st1)) (world st1) of
             (cancel, w) \<Rightarrow>
               let st2 = called (Call_PQgetCancel (pConn (this st1)) cancel) w st1
               in if cancel = None
                  then (Inl (Rcpp_stop ''Connection error detected via PQgetCancel()''), st2)
                  else
                    (case PQcancel E cancel (world st2) of
                       ((ok, errbuf), w') \<Rightarrow>
                         let st3 = called (Call_PQcancel cancel ok errbuf) w' st2;
                             st4 = (if ok = 0 then warning errbuf st3 else st3)
                         in (Inr (), called (Call_PQfreeCancel cancel)
                                       (PQfreeCancel E cancel (world st4)) st4))))"

text \<open>
  \<open>finish_query\<close> loops for as long as \<open>PQgetResult\<close> returns a result; nothing in
  the code bounds that, so the model is a partial function and \<open>None\<close> means that the
  loop does not end.
\<close>

partial_function (option) finish_query ::
  "('w, 'c) env \<Rightarrow> PGconn \<Rightarrow> 'w state \<Rightarrow> 'w state option" where
  "finish_query E c st =
     (case PQgetResult E c (world st) of
        (result, w) \<Rightarrow>
          let st1 = called (Call_PQgetResult c result) w st
          in if result \<noteq> None
             then finish_query E c (called (Call_PQclear result) (PQclear E result (world st1)) st1)
             else Some st1)"

definition cleanup_query :: "('w, 'c) env \<Rightarrow> 'w state \<Rightarrow> ((error + unit) \<times> 'w state) option" where
  "cleanup_query E st =
     (if pCurrentResult (this st) \<noteq> None
         \<and> \<not> complete E (the (pCurrentResult (this st))) (world st)
      then (case cancel_query E st of
              (Inl e, st1) \<Rightarrow> Some (Inl e, st1)
            | (Inr _, st1) \<Rightarrow> map_option (Pair (Inr ())) (finish_query E (pConn (this st1)) st1))
      else map_option (Pair (Inr ())) (finish_query E (pConn (this st)) st))"

subsection \<open>The current result\<close>

definition set_current_result ::
  "('w, 'c) env \<Rightarrow> DbResult \<Rightarrow> 'w state \<Rightarrow> ((error + unit) \<times> 'w state) option" where
  "set_current_result E pResult st =
     (if pResult = pCurrentResult (this st) then Some (Inr (), st)
      else
        (case (if pCurrentResult (this st) \<noteq> None
               then cleanup_query E (if pResult \<noteq> None
                      then warning ''Closing open result set, cancelling previous query'' st
                      else st)
               else Some (Inr (), st)) of
           None \<Rightarrow> None
         | Some (Inl e, st1) \<Rightarrow> Some (Inl e, st1)
         | Some (Inr _, st1) \<Rightarrow> Some (Inr (), st1\<lparr>this := (this st1)\<lparr>pCurrentResult := pResult\<rparr>\<rparr>)))"

definition reset_current_result ::
  "('w, 'c) env \<Rightarrow> DbResult \<Rightarrow> 'w state \<Rightarrow> ((error + unit) \<times> 'w state) option" where
  "reset_current_result E pResult st =
     (if pResult \<noteq> pCurrentResult (this st) then Some (Inr (), st)
      else
        (case cleanup_query E st of
           None \<Rightarrow> None
         | Some (Inl e, st1) \<Rightarrow> Some (Inl e, st1)
         | Some (Inr _, st1) \<Rightarrow> Some (Inr (), st1\<lparr>this := (this st1)\<lparr>pCurrentResult := None\<rparr>\<rparr>)))"

definition is_current_result :: "DbResult \<Rightarrow> 'w state \<Rightarrow> bool" where
  "is_current_result pResult st = (pCurrentResult (this st) = pResult)"

definition has_query :: "'w state \<Rightarrow> bool" where
  "has_query st = (pCurrentResult (this st) \<noteq> None)"

definition is_check_interrupts :: "'w state \<Rightarrow> bool" where
  "is_check_interrupts st = check_interrupts (this st)"

definition is_transacting :: "'w state \<Rightarrow> bool" where
  "is_transacting st = transacting (this st)"

definition set_transacting :: "bool \<Rightarrow> 'w state \<Rightarrow> 'w state" where
  "set_transacting b st = st\<lparr>this := (this st)\<lparr>transacting := b\<rparr>\<rparr>"

subsection \<open>\<open>copy_data\<close>\<close>

text \<open>
  One pass of the loop body up to the test: clear the buffer, encode row \<open>i\<close> into
  it, and hand it to \<open>PQputCopyData\<close> with its size cast to \<open>int\<close>.
\<close>

definition put_row :: "('w, 'c) env \<Rightarrow> 'c list list \<Rightarrow> nat \<Rightarrow> 'w state \<Rightarrow> int \<times> 'w state" where
  "put_row E df i st =
     (let buffer = encode_row_in_buffer E df i [];
          nbytes = sint (word_of_nat (length buffer) :: 32 word)
      in case PQputCopyData E (conn st) buffer nbytes (world st) of
           (ret, w) \<Rightarrow> (ret, called (Call_PQputCopyData (conn st) buffer nbytes ret) w st))"

text \<open>The loop \<open>for (int i = 0; i < n; ++i)\<close>, entered at \<open>i\<close>.\<close>

function copy_rows ::
  "('w, 'c) env \<Rightarrow> 'c list list \<Rightarrow> nat \<Rightarrow> nat \<Rightarrow> 'w state \<Rightarrow> (error + unit) \<times> 'w state" where
  "copy_rows E df i n st =
     (if i < n
      then (case put_row E df i st of
              (ret, st1) \<Rightarrow>
                if ret \<noteq> 1 then conn_stop E ''Failed to put data'' st1
                else copy_rows E df (Suc i) n st1)
      else (Inr (), st))"
  by pat_completeness auto
termination
  by (relation "measure (\<lambda>(E, df, i, n, st). n - i)") auto

declare copy_rows.simps [simp del]

text \<open>
  A data frame is the list of its columns.  \<open>Rf_length(df[0])\<close> is the length of the
  first column, read only when there is one.
\<close>

definition copy_data ::
  "('w, 'c) env \<Rightarrow> string \<Rightarrow> 'c list list \<Rightarrow> 'w state \<Rightarrow> (error + unit) \<times> 'w state" where
  "copy_data E sql df st =
     (let p = length df
      in if p = 0 then (Inr (), st)
         else
           (case PQexec E (conn st) sql (world st) of
              (pInit, w) \<Rightarrow>
                let st1 = called (Call_PQexec (conn st) sql pInit) w st;
                    status = PQresultStatus E pInit (world st1);
                    st2 = called (Call_PQresultStatus pInit status) (world st1) st1
                in if status \<noteq> PGRES_COPY_IN
                   then conn_stop E ''Failed to initialise COPY''
                          (called (Call_PQclear pInit) (PQclear E pInit (world st2)) st2)
                   else
                     let st3 = called (Call_PQclear pInit) (PQclear E pInit (world st2)) st2;
                         n = length (df ! 0)
                     in (case copy_rows E df 0 n st3 of
                           (Inl e, st4) \<Rightarrow> (Inl e, st4)
                         | (Inr _, st4) \<Rightarrow>
                             (case PQputCopyEnd E (conn st4) (world st4) of
                                (r, w') \<Rightarrow>
                                  let st5 = called (Call_PQputCopyEnd (conn st4) r) w' st4
                                  in if r \<noteq> 1 then conn_stop E ''Failed to finish COPY'' st5
                                     else
                                       (case PQgetResult E (conn st5) (world st5) of
                                          (pComplete, w'') \<Rightarrow>
                                            let st6 = called (Call_PQgetResult (conn st5) pComplete) w'' st5;
                                                status' = PQresultStatus E pComplete (world st6);
                                                st7 = called (Call_PQresultStatus pComplete status')
                                                        (world st6) st6;
                                                st8 = called (Call_PQclear pComplete)
                                                        (PQclear E pComplete (world st7)) st7
                                            in if status' \<noteq> PGRES_COMMAND_OK
                                               then conn_stop E ''COPY returned error'' st8
                                               else (Inr (), st8))))))"

subsection \<open>Quoting\<close>

definition get_null_string :: "('w, 'c) env \<Rightarrow> 'w state \<Rightarrow> SEXP \<times> 'w state" where
  "get_null_string E st =
     (case null_static st of
        Some r \<Rightarrow> (r, st)
      | None \<Rightarrow>
          (case Rf_mkCharCE E ''NULL'' (world st) of
             (r, w) \<Rightarrow> (r, (called (Call_Rf_mkCharCE ''NULL'' r) w st)\<lparr>null_static := Some r\<rparr>)))"

text \<open>
  The argument of \<open>quote_string\<close> is \<open>None\<close> for \<open>NA_STRING\<close>.  The length
  argument \<open>static_cast<size_t>(-1)\<close> makes libpq read the C string to its end.  A
  NULL buffer from libpq goes unchecked into \<open>Rf_mkCharCE\<close>.
\<close>

definition quote_string :: "('w, 'c) env \<Rightarrow> string option \<Rightarrow> 'w state \<Rightarrow> (error + SEXP) \<times> 'w state" where
  "quote_string E x st =
     (case check_connection E st of
        (Inl e, st1) \<Rightarrow> (Inl e, st1)
      | (Inr _, st1) \<Rightarrow>
          (case x of
             None \<Rightarrow> (case get_null_string E st1 of (r, st2) \<Rightarrow> (Inr r, st2))
           | Some s \<Rightarrow>
               (case PQescapeLiteral E (pConn (this st1)) s (world st1) of
                  (pq_escaped, w) \<Rightarrow>
                    let st2 = called (Call_PQescapeLiteral (pConn (this st1)) s pq_escaped) w st1
                    in (case pq_escaped of
                          None \<Rightarrow> (Inl Undefined_behaviour, st2)
                        | Some b \<Rightarrow>
                            (case Rf_mkCharCE E b (world st2) of
                               (escaped, w') \<Rightarrow>
                                 let st3 = called (Call_Rf_mkCharCE b escaped) w' st2
                                 in (Inr escaped,
                                     called (Call_PQfreemem pq_escaped)
                                       (PQfreemem E pq_escaped (world st3)) st3))))))"

text \<open>
  \<open>quote_identifier\<close> has no test for \<open>NA_STRING\<close>; its argument is the C string
  that \<open>get_cstring\<close> yields.
\<close>

definition quote_identifier :: "('w, 'c) env \<Rightarrow> string \<Rightarrow> 'w state \<Rightarrow> (error + SEXP) \<times> 'w state" where
  "quote_identifier E x st =
     (case check_connection E st of
        (Inl e, st1) \<Rightarrow> (Inl e, st1)
      | (Inr _, st1) \<Rightarrow>
          (case PQescapeIdentifier E (pConn (this st1)) x (world st1) of
             (pq_escaped, w) \<Rightarrow>
               let st2 = called (Call_PQescapeIdentifier (pConn (this st1)) x pq_escaped) w st1
               in (case pq_escaped of
                     None \<Rightarrow> (Inl Undefined_behaviour, st2)
                   | Some b \<Rightarrow>
                       (case Rf_mkCharCE E b (world st2) of
                          (escaped, w') \<Rightarrow>
                            let st3 = called (Call_Rf_mkCharCE b escaped) w' st2
                            in (Inr escaped,
                                called (Call_PQfreemem pq_escaped)
                                  (PQfreemem E pq_escaped (world st3)) st3)))))"

subsection \<open>Observations on the call log\<close>

definition is_reset :: "extern_call \<Rightarrow> bool" where
  "is_reset c = (case c of Call_PQreset _ \<Rightarrow> True | _ \<Rightarrow> False)"

definition is_put :: "extern_call \<Rightarrow> bool" where
  "is_put c = (case c of Call_PQputCopyData _ _ _ _ \<Rightarrow> True | _ \<Rightarrow> False)"

definition is_escape :: "extern_call \<Rightarrow> bool" where
  "is_escape c =
     (case c of Call_PQescapeLiteral _ _ _ \<Rightarrow> True | Call_PQescapeIdentifier _ _ _ \<Rightarrow> True
      | _ \<Rightarrow> False)"

text \<open>
  What the library is handed for row \<open>i\<close>, and what it makes of the rows: the world
  after rows \<open>0, ..., k - 1\<close> have gone through \<open>PQputCopyData\<close> one after
  the other, starting in the world \<open>w\<close>, and the library's answer to row \<open>k\<close>
  in that world.  These are stated with the library alone, not with the model of
  \<open>copy_data\<close>.
\<close>

definition row_buffer :: "('w, 'c) env \<Rightarrow> 'c list list \<Rightarrow> nat \<Rightarrow> string" where
  "row_buffer E df i = encode_row_in_buffer E df i []"

definition row_size :: "('w, 'c) env \<Rightarrow> 'c list list \<Rightarrow> nat \<Rightarrow> int" where
  "row_size E df i = sint (word_of_nat (length (row_buffer E df i)) :: 32 word)"

fun rows_world :: "('w, 'c) env \<Rightarrow> 'c list list \<Rightarrow> PGconn \<Rightarrow> nat \<Rightarrow> 'w \<Rightarrow> 'w" where
  "rows_world E df c 0 w = w"
| "rows_world E df c (Suc k) w =
     snd (PQputCopyData E c (row_buffer E df k) (row_size E df k) (rows_world E df c k w))"

definition row_answer :: "('w, 'c) env \<Rightarrow> 'c list list \<Rightarrow> PGconn \<Rightarrow> nat \<Rightarrow> 'w \<Rightarrow> int" where
  "row_answer E df c k w =
     fst (PQputCopyData E c (row_buffer E df k) (row_size E df k) (rows_world E df c k w))"

text \<open>
  The state in which \<open>cleanup_query\<close> enters its draining loop, when it gets there:
  the state that \<open>cancel_query\<close> leaves for an unfinished result, the state as it is
  otherwise.
\<close>

definition drain_start :: "('w, 'c) env \<Rightarrow> 'w state \<Rightarrow> 'w state" where
  "drain_start E st =
     (if pCurrentResult (this st) \<noteq> None
         \<and> \<not> complete E (the (pCurrentResult (this st))) (world st)
      then snd (cancel_query E st) else st)"

fun pending :: "('w, 'c) env \<Rightarrow> PGconn \<Rightarrow> nat \<Rightarrow> 'w \<Rightarrow> bool" where
  "pending E c 0 w = (fst (PQgetResult E c w) = None)"
| "pending E c (Suc n) w =
     (fst (PQgetResult E c w) \<noteq> None
      \<and> pending E c n (PQclear E (fst (PQgetResult E c w)) (snd (PQgetResult E c w))))"

section \<open>A simulated server\<close>

text \<open>
  One concrete environment, on which the model runs by rewriting.  The world records
  what the simulated server will answer: the connection status now and after a reset,
  the error text, the result that \<open>PQexec\<close> hands out, the results still pending, how
  many rows \<open>PQputCopyData\<close> accepts, the answers of \<open>PQputCopyEnd\<close> and
  \<open>PQcancel\<close>, and the next free address of R's heap.  Result 0 has status copy-in,
  result 1 command-ok, any other result tuples-ok.  A \<open>DbResult\<close> at an address from
  100 on is complete.
\<close>

record sim =
  sim_status :: ConnStatusType
  sim_after_reset :: ConnStatusType
  sim_error :: string
  sim_exec :: PGresult
  sim_pending :: "nat list"
  sim_accept :: nat
  sim_copy_end :: int
  sim_cancel :: int
  sim_heap :: nat

definition sim_result_status :: "PGresult \<Rightarrow> ExecStatusType" where
  "sim_result_status r =
     (case r of
        None \<Rightarrow> PGRES_FATAL_ERROR
      | Some a \<Rightarrow> (if a = 0 then PGRES_COPY_IN
                   else if a = 1 then PGRES_COMMAND_OK else PGRES_TUPLES_OK))"

definition sim_env :: "(sim, string) env" where
  "sim_env =
     \<lparr>PQconnectdbParams =
        (\<lambda>ks vs b w. (if sim_status w = CONNECTION_OK then Some 7 else None, w)),
      PQsetClientEncoding = (\<lambda>c e w. w),
      PQfinish = (\<lambda>c w. w),
      PQstatus = (\<lambda>c w. if c = None then CONNECTION_BAD else sim_status w),
      PQreset = (\<lambda>c w. w\<lparr>sim_status := sim_after_reset w\<rparr>),
      PQerrorMessage = (\<lambda>c w. sim_error w),
      PQgetCancel = (\<lambda>c w. (if c = None then None else Some 5, w)),
      PQcancel =
        (\<lambda>k w. ((sim_cancel w, if sim_cancel w = 0 then ''cancel refused'' else []), w)),
      PQfreeCancel = (\<lambda>k w. w),
      PQgetResult =
        (\<lambda>c w. case sim_pending w of
                  [] \<Rightarrow> (None, w)
                | r # rs \<Rightarrow> (Some r, w\<lparr>sim_pending := rs\<rparr>)),
      PQclear = (\<lambda>r w. w),
      PQexec = (\<lambda>c q w. (sim_exec w, w)),
      PQresultStatus = (\<lambda>r w. sim_result_status r),
      PQputCopyData =
        (\<lambda>c buf n w. if sim_accept w = 0 then (- 1, w)
                      else (1, w\<lparr>sim_accept := sim_accept w - 1\<rparr>)),
      PQputCopyEnd = (\<lambda>c w. (sim_copy_end w, w)),
      PQescapeLiteral = (\<lambda>c x w. (Some (''<'' @ x @ ''>''), w)),
      PQescapeIdentifier = (\<lambda>c x w. (Some (''['' @ x @ '']''), w)),
      PQfreemem = (\<lambda>b w. w),
      Rf_mkCharCE = (\<lambda>s w. (sim_heap w, w\<lparr>sim_heap := Suc (sim_heap w)\<rparr>)),
      complete = (\<lambda>r w. 100 \<le> r),
      encode_row_in_buffer = (\<lambda>df i buf. buf @ concat (map (\<lambda>col. col ! i @ ''|'') df))\<rparr>"

text \<open>
  The same server with a \<open>PQescapeLiteral\<close> that, like libpq's, returns NULL for a
  string that ends inside a multibyte character: here, one whose last byte is the UTF-8
  lead byte \<open>0xC3\<close>.
\<close>

definition sim_env_strict :: "(sim, string) env" where
  "sim_env_strict =
     sim_env\<lparr>PQescapeLiteral :=
       (\<lambda>c x w. (if x \<noteq> [] \<and> last x = CHR 0xC3 then None else Some (''<'' @ x @ ''>''), w))\<rparr>"

definition sim_world :: sim where
  "sim_world =
     \<lparr>sim_status = CONNECTION_OK, sim_after_reset = CONNECTION_OK,
      sim_error = ''server closed'', sim_exec = Some 0, sim_pending = [1], sim_accept = 10,
      sim_copy_end = 1, sim_cancel = 1, sim_heap = 40\<rparr>"

text \<open>A connected object with no query, and the same object after \<open>disconnect\<close>.\<close>

definition sim_state :: "sim state" where
  "sim_state =
     \<lparr>this = \<lparr>pConn = Some 7, pCurrentResult = None, transacting = False,
              check_interrupts = True\<rparr>,
      world = sim_world, calls = [], warnings = [], null_static = None\<rparr>"

definition sim_disconnected :: "sim state" where
  "sim_disconnected = sim_state\<lparr>this := (this sim_state)\<lparr>pConn := None\<rparr>\<rparr>"

text \<open>The object tracking the unfinished result 1, and the complete result 100.\<close>

definition sim_querying :: "sim state" where
  "sim_querying = sim_state\<lparr>this := (this sim_state)\<lparr>pCurrentResult := Some 1\<rparr>\<rparr>"

definition sim_fetched :: "sim state" where
  "sim_fetched = sim_state\<lparr>this := (this sim_state)\<lparr>pCurrentResult := Some 100\<rparr>\<rparr>"

text \<open>
  The unfinished result 1 is still tracked after a \<open>disconnect\<close>; and a server
  that refuses the cancel request for it while two results are pending.
\<close>

definition sim_orphan :: "sim state" where
  "sim_orphan = sim_querying\<lparr>this := (this sim_querying)\<lparr>pConn := None\<rparr>\<rparr>"

definition sim_busy :: "sim state" where
  "sim_busy = sim_querying\<lparr>world := sim_world\<lparr>sim_cancel := 0, sim_pending := [3, 4]\<rparr>\<rparr>"

text \<open>
  A connection whose status has degraded and comes back on reset; one that stays lost;
  a server that answers the statement with a tuples-ok result instead of copy-in.
\<close>

definition sim_degraded :: "sim state" where
  "sim_degraded = sim_state\<lparr>world := sim_world\<lparr>sim_status := CONNECTION_BAD\<rparr>\<rparr>"

definition sim_lost :: "sim state" where
  "sim_lost =
     sim_state\<lparr>world := sim_world\<lparr>sim_status := CONNECTION_BAD,
                                    sim_after_reset := CONNECTION_BAD\<rparr>\<rparr>"

definition sim_no_copy :: "sim state" where
  "sim_no_copy = sim_state\<lparr>world := sim_world\<lparr>sim_exec := Some 2\<rparr>\<rparr>"

text \<open>A server that accepts one row and refuses the next.\<close>

definition sim_one_row :: "sim state" where
  "sim_one_row = sim_state\<lparr>world := sim_world\<lparr>sim_accept := 1\<rparr>\<rparr>"


section \<open>Theorems\<close>

lemmas sim_defs =
  sim_env_def sim_world_def sim_state_def sim_disconnected_def sim_querying_def
  sim_fetched_def sim_result_status_def sim_degraded_def sim_lost_def sim_no_copy_def
  sim_one_row_def sim_orphan_def sim_busy_def

lemma called_simps [simp]:
  "this (called c w st) = this st"
  "world (called c w st) = w"
  "calls (called c w st) = calls st @ [c]"
  "warnings (called c w st) = warnings st"
  "null_static (called c w st) = null_static st"
  "conn (called c w st) = conn st"
  by (simp_all add: called_def conn_def)

lemma warning_simps [simp]:
  "this (warning m st) = this st"
  "world (warning m st) = world st"
  "calls (warning m st) = calls st"
  "warnings (warning m st) = warnings st @ [m]"
  "null_static (warning m st) = null_static st"
  "conn (warning m st) = conn st"
  by (simp_all add: warning_def conn_def)

subsection \<open>\<open>check_connection\<close>\<close>

text \<open>
  Claim C3.  Without a native handle \<open>check_connection\<close> stops with "Disconnected"
  and calls nothing.  With a handle whose status is OK it returns after that one
  \<open>PQstatus\<close> call.  Otherwise it calls \<open>PQreset\<close> once and \<open>PQstatus\<close> once
  more, and then either returns, or stops with "Lost connection to database: " followed
  by the text of \<open>PQerrorMessage\<close>; there is no second reset.  (The code raises every
  error through the one \<open>stop\<close>; the kinds ConnectionError and QueryError are the
  spec's names for the message without and with the native text.)
\<close>

theorem check_connection_cases:
  "(pConn (this st) = None \<longrightarrow> check_connection E st = (Inl (Rcpp_stop ''Disconnected''), st))
   \<and> (pConn (this st) \<noteq> None \<and> PQstatus E (pConn (this st)) (world st) = CONNECTION_OK \<longrightarrow>
        check_connection E st =
          (Inr (), st\<lparr>calls := calls st @ [Call_PQstatus (pConn (this st)) CONNECTION_OK]\<rparr>))
   \<and> (pConn (this st) \<noteq> None \<and> PQstatus E (pConn (this st)) (world st) \<noteq> CONNECTION_OK \<longrightarrow>
        (let c = pConn (this st); w = PQreset E c (world st); txt = PQerrorMessage E c w;
             tried = [Call_PQstatus c (PQstatus E c (world st)), Call_PQreset c,
                      Call_PQstatus c (PQstatus E c w)]
         in length (filter is_reset tried) = 1
            \<and> check_connection E st =
                (if PQstatus E c w = CONNECTION_OK
                 then (Inr (), st\<lparr>world := w, calls := calls st @ tried\<rparr>)
                 else (Inl (Rcpp_stop (''Lost connection to database: '' @ txt)),
                       st\<lparr>world := w, calls := calls st @ tried @ [Call_PQerrorMessage c txt]\<rparr>))))"
  by (simp add: check_connection_def conn_stop_def called_def conn_def Let_def is_reset_def)

theorem check_connection_cases_witness:
  "(pConn (this sim_disconnected) = None
    \<and> check_connection sim_env sim_disconnected =
        (Inl (Rcpp_stop ''Disconnected''), sim_disconnected))
   \<and> (pConn (this sim_state) \<noteq> None
    \<and> PQstatus sim_env (pConn (this sim_state)) (world sim_state) = CONNECTION_OK
    \<and> check_connection sim_env sim_state =
        (Inr (), sim_state\<lparr>calls := [Call_PQstatus (Some 7) CONNECTION_OK]\<rparr>))
   \<and> (pConn (this sim_degraded) \<noteq> None
    \<and> PQstatus sim_env (pConn (this sim_degraded)) (world sim_degraded) \<noteq> CONNECTION_OK
    \<and> check_connection sim_env sim_degraded =
        (Inr (), sim_state\<lparr>calls := [Call_PQstatus (Some 7) CONNECTION_BAD, Call_PQreset (Some 7),
                                      Call_PQstatus (Some 7) CONNECTION_OK]\<rparr>))
   \<and> (pConn (this sim_lost) \<noteq> None
    \<and> PQstatus sim_env (pConn (this sim_lost)) (world sim_lost) \<noteq> CONNECTION_OK
    \<and> check_connection sim_env sim_lost =
        (Inl (Rcpp_stop ''Lost connection to database: server closed''),
         sim_lost\<lparr>calls := [Call_PQstatus (Some 7) CONNECTION_BAD, Call_PQreset (Some 7),
                            Call_PQstatus (Some 7) CONNECTION_BAD,
                            Call_PQerrorMessage (Some 7) ''server closed'']\<rparr>))"
  using check_connection_cases [of sim_disconnected sim_env]
    check_connection_cases [of sim_state sim_env]
    check_connection_cases [of sim_degraded sim_env]
    check_connection_cases [of sim_lost sim_env]
  by (simp add: sim_defs Let_def is_reset_def)

subsection \<open>\<open>copy_data\<close>: no columns, and a statement that does not start a copy\<close>

text \<open>
  Claim C8.  For every statement text, \<open>copy_data\<close> on a data frame without columns
  returns normally and leaves the whole state as it was: the object, the world, the
  warnings, and the call log, so no library call was made.
\<close>

theorem copy_data_no_columns: "copy_data E sql [] st = (Inr (), st)"
  by (simp add: copy_data_def)

text \<open>
  Claim C2.  For a data frame with at least one column, if the result of the statement
  does not have status copy-in, \<open>copy_data\<close> clears that result and stops with
  "Failed to initialise COPY: " followed by the text of \<open>PQerrorMessage\<close>.  The calls
  it has made are \<open>PQexec\<close>, \<open>PQresultStatus\<close>, \<open>PQclear\<close> and
  \<open>PQerrorMessage\<close>; \<open>PQputCopyData\<close> is not among them.
\<close>

theorem copy_data_init_fails:
  "df \<noteq> [] \<Longrightarrow>
   PQresultStatus E (fst (PQexec E (pConn (this st)) sql (world st)))
     (snd (PQexec E (pConn (this st)) sql (world st))) \<noteq> PGRES_COPY_IN \<Longrightarrow>
   (let c = pConn (this st);
        pInit = fst (PQexec E c sql (world st));
        w1 = snd (PQexec E c sql (world st));
        w2 = PQclear E pInit w1;
        txt = PQerrorMessage E c w2;
        made = [Call_PQexec c sql pInit, Call_PQresultStatus pInit (PQresultStatus E pInit w1),
                Call_PQclear pInit, Call_PQerrorMessage c txt]
    in copy_data E sql df st =
         (Inl (Rcpp_stop (''Failed to initialise COPY: '' @ txt)),
          st\<lparr>world := w2, calls := calls st @ made\<rparr>)
       \<and> filter is_put made = [])"
  by (simp add: copy_data_def conn_stop_def called_def conn_def Let_def is_put_def case_prod_beta)

theorem copy_data_init_fails_witness:
  "[[''a'', ''b''], [''c'', ''d'']] \<noteq> []
   \<and> PQresultStatus sim_env
        (fst (PQexec sim_env (pConn (this sim_no_copy)) ''COPY t FROM STDIN'' (world sim_no_copy)))
        (snd (PQexec sim_env (pConn (this sim_no_copy)) ''COPY t FROM STDIN'' (world sim_no_copy)))
       \<noteq> PGRES_COPY_IN
   \<and> copy_data sim_env ''COPY t FROM STDIN'' [[''a'', ''b''], [''c'', ''d'']] sim_no_copy =
       (Inl (Rcpp_stop ''Failed to initialise COPY: server closed''),
        sim_no_copy\<lparr>calls := [Call_PQexec (Some 7) ''COPY t FROM STDIN'' (Some 2),
                              Call_PQresultStatus (Some 2) PGRES_TUPLES_OK, Call_PQclear (Some 2),
                              Call_PQerrorMessage (Some 7) ''server closed'']\<rparr>)"
  using copy_data_init_fails [of "[[''a'', ''b''], [''c'', ''d'']]" sim_env sim_no_copy
      "''COPY t FROM STDIN''"]
  by (simp add: sim_defs Let_def is_put_def)

subsection \<open>\<open>copy_data\<close>: the rows\<close>

text \<open>
  One pass of the loop body hands the library the encoded row and its size in the world
  that the earlier rows have left.  If the rows before \<open>k\<close> are all answered with 1
  and row \<open>k\<close>, when there is one, is not, the loop entered at \<open>i \<le> k\<close> has this
  result and state.
\<close>

lemma put_row_eq:
  "world st = rows_world E df (pConn (this st)) i w0 \<Longrightarrow>
   put_row E df i st =
     (row_answer E df (pConn (this st)) i w0,
      st\<lparr>world := rows_world E df (pConn (this st)) (Suc i) w0,
         calls := calls st @ [Call_PQputCopyData (pConn (this st)) (row_buffer E df i)
                                (row_size E df i) (row_answer E df (pConn (this st)) i w0)]\<rparr>)"
  by (simp add: put_row_def row_answer_def row_buffer_def row_size_def conn_def called_def
      Let_def case_prod_beta)

lemma copy_rows_done: "\<not> i < n \<Longrightarrow> copy_rows E df i n st = (Inr (), st)"
  by (simp add: copy_rows.simps [of E df i n st])

lemma copy_rows_step:
  "i < n \<Longrightarrow> copy_rows E df i n st =
     (if fst (put_row E df i st) \<noteq> 1
      then conn_stop E ''Failed to put data'' (snd (put_row E df i st))
      else copy_rows E df (Suc i) n (snd (put_row E df i st)))"
  by (simp add: copy_rows.simps [of E df i n st] case_prod_beta)

lemma copy_rows_eq:
  assumes "i \<le> k" and "k \<le> n"
    and acc: "\<forall>j<k. row_answer E df (pConn (this st)) j w0 = 1"
    and ref: "k < n \<longrightarrow> row_answer E df (pConn (this st)) k w0 \<noteq> 1"
    and w: "world st = rows_world E df (pConn (this st)) i w0"
  shows "copy_rows E df i n st =
    (if k < n
     then (Inl (Rcpp_stop (''Failed to put data: ''
                 @ PQerrorMessage E (pConn (this st)) (rows_world E df (pConn (this st)) (Suc k) w0))),
           st\<lparr>world := rows_world E df (pConn (this st)) (Suc k) w0,
              calls := calls st
                @ map (\<lambda>j. Call_PQputCopyData (pConn (this st)) (row_buffer E df j) (row_size E df j) 1) [i..<k]
                @ [Call_PQputCopyData (pConn (this st)) (row_buffer E df k) (row_size E df k)
                     (row_answer E df (pConn (this st)) k w0),
                   Call_PQerrorMessage (pConn (this st))
                     (PQerrorMessage E (pConn (this st)) (rows_world E df (pConn (this st)) (Suc k) w0))]\<rparr>)
     else (Inr (),
           st\<lparr>world := rows_world E df (pConn (this st)) n w0,
              calls := calls st
                @ map (\<lambda>j. Call_PQputCopyData (pConn (this st)) (row_buffer E df j) (row_size E df j) 1) [i..<n]\<rparr>))"
  using assms
proof (induction "k - i" arbitrary: i st)
  case 0
  then have ik: "i = k" by simp
  show ?case
  proof (cases "k < n")
    case True
    with 0 ik show ?thesis
      by (simp add: copy_rows_step put_row_eq [where ?w0.0 = w0]
          conn_stop_def conn_def called_def Let_def)
  next
    case False
    with 0 ik have "i = n" by simp
    moreover from this 0 have "st\<lparr>world := rows_world E df (pConn (this st)) n w0\<rparr> = st"
      using "0.prems"(5) [symmetric] by simp
    ultimately show ?thesis using False
      by (simp add: copy_rows_done)
  qed
next
  case (Suc d)
  then have lt: "i < k" by simp
  with Suc.prems have in': "i < n" by simp
  from lt Suc.prems have one: "row_answer E df (pConn (this st)) i w0 = 1" by simp
  let ?st1 = "st\<lparr>world := rows_world E df (pConn (this st)) (Suc i) w0,
         calls := calls st @ [Call_PQputCopyData (pConn (this st)) (row_buffer E df i)
                                (row_size E df i) 1]\<rparr>"
  have step: "copy_rows E df i n st = copy_rows E df (Suc i) n ?st1"
    using in' one Suc.prems(5)
    by (simp add: copy_rows_step put_row_eq [where ?w0.0 = w0])
  have d: "d = k - Suc i" using Suc.hyps(2) by simp
  have up: "[i..<k] = i # [Suc i..<k]" "[i..<n] = i # [Suc i..<n]"
    using lt in' by (simp_all add: upt_conv_Cons)
  have "copy_rows E df (Suc i) n ?st1 = (if k < n
     then (Inl (Rcpp_stop (''Failed to put data: ''
                 @ PQerrorMessage E (pConn (this ?st1)) (rows_world E df (pConn (this ?st1)) (Suc k) w0))),
           ?st1\<lparr>world := rows_world E df (pConn (this ?st1)) (Suc k) w0,
              calls := calls ?st1
                @ map (\<lambda>j. Call_PQputCopyData (pConn (this ?st1)) (row_buffer E df j) (row_size E df j) 1) [Suc i..<k]
                @ [Call_PQputCopyData (pConn (this ?st1)) (row_buffer E df k) (row_size E df k)
                     (row_answer E df (pConn (this ?st1)) k w0),
                   Call_PQerrorMessage (pConn (this ?st1))
                     (PQerrorMessage E (pConn (this ?st1)) (rows_world E df (pConn (this ?st1)) (Suc k) w0))]\<rparr>)
     else (Inr (),
           ?st1\<lparr>world := rows_world E df (pConn (this ?st1)) n w0,
              calls := calls ?st1
                @ map (\<lambda>j. Call_PQputCopyData (pConn (this ?st1)) (row_buffer E df j) (row_size E df j) 1) [Suc i..<n]\<rparr>))"
    using lt Suc.prems by (intro Suc.hyps(1) [OF d]) simp_all
  with step up show ?case by simp
qed

text \<open>
  Claim C5.  For a data frame with at least one column, once the statement has been
  answered with copy-in, let \<open>n\<close> be the length of the first column.  There is a
  \<open>k \<le> n\<close> such that the library answers rows \<open>0, ..., k - 1\<close> with 1 and,
  when \<open>k < n\<close>, row \<open>k\<close> with something else, and \<open>copy_data\<close> has exactly
  this result and state.  When \<open>k < n\<close>: rows \<open>0, ..., k\<close> were encoded and handed
  to \<open>PQputCopyData\<close> in this order, and it stops with "Failed to put data".
  Otherwise all \<open>n\<close> rows were handed over in order; it calls \<open>PQputCopyEnd\<close>
  and stops with "Failed to finish COPY" unless the answer is 1; then it fetches the
  result with \<open>PQgetResult\<close>, reads its status and clears it, and stops with "COPY
  returned error" unless the status was command-ok.  Every message ends with the text
  of \<open>PQerrorMessage\<close>; the world is the one the library calls have left, and the
  log holds each call with the library's own answer.
\<close>

theorem copy_data_rows:
  assumes cols: "df \<noteq> []"
    and init: "PQresultStatus E (fst (PQexec E (pConn (this st)) sql (world st)))
                 (snd (PQexec E (pConn (this st)) sql (world st))) = PGRES_COPY_IN"
  shows
   "(let c = pConn (this st);
         pInit = fst (PQexec E c sql (world st));
         w2 = PQclear E pInit (snd (PQexec E c sql (world st)));
         n = length (df ! 0);
         started = [Call_PQexec c sql pInit, Call_PQresultStatus pInit PGRES_COPY_IN,
                    Call_PQclear pInit];
         put = (\<lambda>j. Call_PQputCopyData c (row_buffer E df j) (row_size E df j)
                        (row_answer E df c j w2))
     in \<exists>k\<le>n. (\<forall>j<k. row_answer E df c j w2 = 1)
          \<and> (k < n \<longrightarrow> row_answer E df c k w2 \<noteq> 1)
          \<and> copy_data E sql df st =
             (if k < n
              then (let w3 = rows_world E df c (Suc k) w2
                    in (Inl (Rcpp_stop (''Failed to put data: '' @ PQerrorMessage E c w3)),
                        st\<lparr>world := w3,
                           calls := calls st @ started @ map put [0..<Suc k]
                                      @ [Call_PQerrorMessage c (PQerrorMessage E c w3)]\<rparr>))
              else (let w3 = rows_world E df c n w2;
                        r = fst (PQputCopyEnd E c w3);
                        w4 = snd (PQputCopyEnd E c w3);
                        pComplete = fst (PQgetResult E c w4);
                        w5 = snd (PQgetResult E c w4);
                        w6 = PQclear E pComplete w5;
                        fetch = [Call_PQputCopyEnd c r, Call_PQgetResult c pComplete,
                                 Call_PQresultStatus pComplete (PQresultStatus E pComplete w5),
                                 Call_PQclear pComplete]
                    in if r \<noteq> 1
                       then (Inl (Rcpp_stop (''Failed to finish COPY: '' @ PQerrorMessage E c w4)),
                             st\<lparr>world := w4,
                                calls := calls st @ started @ map put [0..<n]
                                           @ [Call_PQputCopyEnd c r,
                                              Call_PQerrorMessage c (PQerrorMessage E c w4)]\<rparr>)
                       else if PQresultStatus E pComplete w5 \<noteq> PGRES_COMMAND_OK
                       then (Inl (Rcpp_stop (''COPY returned error: '' @ PQerrorMessage E c w6)),
                             st\<lparr>world := w6,
                                calls := calls st @ started @ map put [0..<n] @ fetch
                                           @ [Call_PQerrorMessage c (PQerrorMessage E c w6)]\<rparr>)
                       else (Inr (),
                             st\<lparr>world := w6,
                                calls := calls st @ started @ map put [0..<n] @ fetch\<rparr>))))"
proof -
  let ?c = "pConn (this st)"
  let ?pInit = "fst (PQexec E ?c sql (world st))"
  let ?w2 = "PQclear E ?pInit (snd (PQexec E ?c sql (world st)))"
  let ?n = "length (df ! 0)"
  let ?A = "\<lambda>j. row_answer E df ?c j ?w2"
  obtain k where k: "k \<le> ?n" and acc: "\<forall>j<k. ?A j = 1" and ref: "k < ?n \<longrightarrow> ?A k \<noteq> 1"
  proof (cases "\<exists>j. j < ?n \<and> ?A j \<noteq> 1")
    case False
    then have "\<forall>j<?n. ?A j = 1" by blast
    then show ?thesis using that [of ?n] by blast
  next
    case True
    define k0 where "k0 = (LEAST j. j < ?n \<and> ?A j \<noteq> 1)"
    from LeastI_ex [OF True] have here: "k0 < ?n \<and> ?A k0 \<noteq> 1"
      unfolding k0_def .
    have "?A j = 1" if "j < k0" for j
    proof -
      from that have "\<not> (j < ?n \<and> ?A j \<noteq> 1)"
        unfolding k0_def by (rule not_less_Least)
      moreover from that here have "j < ?n" by simp
      ultimately show ?thesis by blast
    qed
    then have "\<forall>j<k0. ?A j = 1" by blast
    moreover from here have "k0 \<le> ?n" by simp
    ultimately show ?thesis using that [of k0] here by blast
  qed
  let ?w1 = "snd (PQexec E ?c sql (world st))"
  let ?started = "[Call_PQexec ?c sql ?pInit, Call_PQresultStatus ?pInit PGRES_COPY_IN,
                   Call_PQclear ?pInit]"
  let ?put = "\<lambda>j. Call_PQputCopyData ?c (row_buffer E df j) (row_size E df j) (?A j)"
  define st3 where "st3 = called (Call_PQclear ?pInit) ?w2
        (called (Call_PQresultStatus ?pInit PGRES_COPY_IN) ?w1
          (called (Call_PQexec ?c sql ?pInit) ?w1 st))"
  have st3: "this st3 = this st" "world st3 = ?w2" "calls st3 = calls st @ ?started"
    by (simp_all add: st3_def)
  have upd: "st3\<lparr>world := w, calls := calls st3 @ l\<rparr> = st\<lparr>world := w, calls := calls st @ ?started @ l\<rparr>"
    for w l
    by (simp add: st3_def called_def)
  have cd: "copy_data E sql df st =
    (case copy_rows E df 0 ?n st3 of
       (Inl e, st4) \<Rightarrow> (Inl e, st4)
     | (Inr _, st4) \<Rightarrow>
         (case PQputCopyEnd E (conn st4) (world st4) of
            (r, w') \<Rightarrow>
              let st5 = called (Call_PQputCopyEnd (conn st4) r) w' st4
              in if r \<noteq> 1 then conn_stop E ''Failed to finish COPY'' st5
                 else
                   (case PQgetResult E (conn st5) (world st5) of
                      (pComplete, w'') \<Rightarrow>
                        let st6 = called (Call_PQgetResult (conn st5) pComplete) w'' st5;
                            status' = PQresultStatus E pComplete (world st6);
                            st7 = called (Call_PQresultStatus pComplete status') (world st6) st6;
                            st8 = called (Call_PQclear pComplete) (PQclear E pComplete (world st7)) st7
                        in if status' \<noteq> PGRES_COMMAND_OK
                           then conn_stop E ''COPY returned error'' st8
                           else (Inr (), st8))))"
    using cols init by (simp add: copy_data_def Let_def conn_def st3_def case_prod_beta)
  have ones: "map ?put [0..<m]
      = map (\<lambda>j. Call_PQputCopyData ?c (row_buffer E df j) (row_size E df j) 1) [0..<m]"
    if "m \<le> k" for m
    using that acc by (intro map_cong) auto
  have eq: "copy_data E sql df st =
             (if k < ?n
              then (let w3 = rows_world E df ?c (Suc k) ?w2
                    in (Inl (Rcpp_stop (''Failed to put data: '' @ PQerrorMessage E ?c w3)),
                        st\<lparr>world := w3,
                           calls := calls st @ ?started @ map ?put [0..<Suc k]
                                      @ [Call_PQerrorMessage ?c (PQerrorMessage E ?c w3)]\<rparr>))
              else (let w3 = rows_world E df ?c ?n ?w2;
                        r = fst (PQputCopyEnd E ?c w3);
                        w4 = snd (PQputCopyEnd E ?c w3);
                        pComplete = fst (PQgetResult E ?c w4);
                        w5 = snd (PQgetResult E ?c w4);
                        w6 = PQclear E pComplete w5;
                        fetch = [Call_PQputCopyEnd ?c r, Call_PQgetResult ?c pComplete,
                                 Call_PQresultStatus pComplete (PQresultStatus E pComplete w5),
                                 Call_PQclear pComplete]
                    in if r \<noteq> 1
                       then (Inl (Rcpp_stop (''Failed to finish COPY: '' @ PQerrorMessage E ?c w4)),
                             st\<lparr>world := w4,
                                calls := calls st @ ?started @ map ?put [0..<?n]
                                           @ [Call_PQputCopyEnd ?c r,
                                              Call_PQerrorMessage ?c (PQerrorMessage E ?c w4)]\<rparr>)
                       else if PQresultStatus E pComplete w5 \<noteq> PGRES_COMMAND_OK
                       then (Inl (Rcpp_stop (''COPY returned error: '' @ PQerrorMessage E ?c w6)),
                             st\<lparr>world := w6,
                                calls := calls st @ ?started @ map ?put [0..<?n] @ fetch
                                           @ [Call_PQerrorMessage ?c (PQerrorMessage E ?c w6)]\<rparr>)
                       else (Inr (),
                             st\<lparr>world := w6,
                                calls := calls st @ ?started @ map ?put [0..<?n] @ fetch\<rparr>)))"
  proof (cases "k < ?n")
    case True
    from True k acc ref st3
    have rows: "copy_rows E df 0 ?n st3 =
      (Inl (Rcpp_stop (''Failed to put data: ''
                 @ PQerrorMessage E ?c (rows_world E df ?c (Suc k) ?w2))),
           st3\<lparr>world := rows_world E df ?c (Suc k) ?w2,
              calls := calls st3
                @ (map (\<lambda>j. Call_PQputCopyData ?c (row_buffer E df j) (row_size E df j) 1) [0..<k]
                @ [?put k,
                   Call_PQerrorMessage ?c
                     (PQerrorMessage E ?c (rows_world E df ?c (Suc k) ?w2))])\<rparr>)"
      using copy_rows_eq [of 0 k ?n E df st3 ?w2] by simp
    have l: "map ?put [0..<Suc k] = map (\<lambda>j. Call_PQputCopyData ?c (row_buffer E df j) (row_size E df j) 1) [0..<k] @ [?put k]"
      using ones [of k] by simp
    have "copy_data E sql df st = (Inl (Rcpp_stop (''Failed to put data: ''
                 @ PQerrorMessage E ?c (rows_world E df ?c (Suc k) ?w2))),
           st\<lparr>world := rows_world E df ?c (Suc k) ?w2,
              calls := calls st @ ?started
                @ (map (\<lambda>j. Call_PQputCopyData ?c (row_buffer E df j) (row_size E df j) 1) [0..<k]
                @ [?put k,
                   Call_PQerrorMessage ?c
                     (PQerrorMessage E ?c (rows_world E df ?c (Suc k) ?w2))])\<rparr>)"
      unfolding cd rows upd by simp
    with True l show ?thesis
      by (simp only: Let_def if_True append_assoc append.simps)
  next
    case False
    with k have kn: "k = ?n" by simp
    from False kn acc st3
    have rows: "copy_rows E df 0 ?n st3 =
      (Inr (), st3\<lparr>world := rows_world E df ?c ?n ?w2,
              calls := calls st3
                @ map (\<lambda>j. Call_PQputCopyData ?c (row_buffer E df j) (row_size E df j) 1) [0..<?n]\<rparr>)"
      using copy_rows_eq [of 0 ?n ?n E df st3 ?w2] by simp
    let ?st4 = "st\<lparr>world := rows_world E df ?c ?n ?w2,
              calls := calls st @ ?started @ map ?put [0..<?n]\<rparr>"
    have st4: "st3\<lparr>world := rows_world E df ?c ?n ?w2,
              calls := calls st3
                @ map (\<lambda>j. Call_PQputCopyData ?c (row_buffer E df j) (row_size E df j) 1) [0..<?n]\<rparr> = ?st4"
      unfolding upd using ones [of ?n] kn by simp
    have "copy_data E sql df st =
         (case PQputCopyEnd E (conn ?st4) (world ?st4) of
            (r, w') \<Rightarrow>
              let st5 = called (Call_PQputCopyEnd (conn ?st4) r) w' ?st4
              in if r \<noteq> 1 then conn_stop E ''Failed to finish COPY'' st5
                 else
                   (case PQgetResult E (conn st5) (world st5) of
                      (pComplete, w'') \<Rightarrow>
                        let st6 = called (Call_PQgetResult (conn st5) pComplete) w'' st5;
                            status' = PQresultStatus E pComplete (world st6);
                            st7 = called (Call_PQresultStatus pComplete status') (world st6) st6;
                            st8 = called (Call_PQclear pComplete) (PQclear E pComplete (world st7)) st7
                        in if status' \<noteq> PGRES_COMMAND_OK
                           then conn_stop E ''COPY returned error'' st8
                           else (Inr (), st8)))"
      unfolding cd rows st4 by simp
    with False show ?thesis
      by (simp add: Let_def conn_def conn_stop_def called_def case_prod_beta)
  qed
  from k acc ref eq show ?thesis
    unfolding Let_def by blast
qed

theorem copy_data_rows_witness:
  "[[''a'', ''b''], [''c'', ''d'']] \<noteq> []
   \<and> PQresultStatus sim_env
        (fst (PQexec sim_env (pConn (this sim_state)) ''COPY t FROM STDIN'' (world sim_state)))
        (snd (PQexec sim_env (pConn (this sim_state)) ''COPY t FROM STDIN'' (world sim_state)))
       = PGRES_COPY_IN
   \<and> copy_data sim_env ''COPY t FROM STDIN'' [[''a'', ''b''], [''c'', ''d'']] sim_state =
       (Inr (), sim_state\<lparr>world := sim_world\<lparr>sim_pending := [], sim_accept := 8\<rparr>,
          calls := [Call_PQexec (Some 7) ''COPY t FROM STDIN'' (Some 0),
            Call_PQresultStatus (Some 0) PGRES_COPY_IN, Call_PQclear (Some 0),
            Call_PQputCopyData (Some 7) ''a|c|'' 4 1, Call_PQputCopyData (Some 7) ''b|d|'' 4 1,
            Call_PQputCopyEnd (Some 7) 1, Call_PQgetResult (Some 7) (Some 1),
            Call_PQresultStatus (Some 1) PGRES_COMMAND_OK, Call_PQclear (Some 1)]\<rparr>)
   \<and> PQresultStatus sim_env
        (fst (PQexec sim_env (pConn (this sim_one_row)) ''COPY t FROM STDIN'' (world sim_one_row)))
        (snd (PQexec sim_env (pConn (this sim_one_row)) ''COPY t FROM STDIN'' (world sim_one_row)))
       = PGRES_COPY_IN
   \<and> copy_data sim_env ''COPY t FROM STDIN'' [[''a'', ''b''], [''c'', ''d'']] sim_one_row =
       (Inl (Rcpp_stop ''Failed to put data: server closed''),
        sim_state\<lparr>world := sim_world\<lparr>sim_accept := 0\<rparr>,
          calls := [Call_PQexec (Some 7) ''COPY t FROM STDIN'' (Some 0),
            Call_PQresultStatus (Some 0) PGRES_COPY_IN, Call_PQclear (Some 0),
            Call_PQputCopyData (Some 7) ''a|c|'' 4 1, Call_PQputCopyData (Some 7) ''b|d|'' 4 (- 1),
            Call_PQerrorMessage (Some 7) ''server closed'']\<rparr>)"
proof -
  have cols: "[[''a'', ''b''], [''c'', ''d'']] \<noteq> []"
    by simp
  have init: "PQresultStatus sim_env
        (fst (PQexec sim_env (pConn (this sim_state)) ''COPY t FROM STDIN'' (world sim_state)))
        (snd (PQexec sim_env (pConn (this sim_state)) ''COPY t FROM STDIN'' (world sim_state)))
       = PGRES_COPY_IN"
    by (simp add: sim_defs)
  have init': "PQresultStatus sim_env
        (fst (PQexec sim_env (pConn (this sim_one_row)) ''COPY t FROM STDIN'' (world sim_one_row)))
        (snd (PQexec sim_env (pConn (this sim_one_row)) ''COPY t FROM STDIN'' (world sim_one_row)))
       = PGRES_COPY_IN"
    by (simp add: sim_defs)
  have run: "copy_data sim_env ''COPY t FROM STDIN'' [[''a'', ''b''], [''c'', ''d'']] sim_state =
       (Inr (), sim_state\<lparr>world := sim_world\<lparr>sim_pending := [], sim_accept := 8\<rparr>,
          calls := [Call_PQexec (Some 7) ''COPY t FROM STDIN'' (Some 0),
            Call_PQresultStatus (Some 0) PGRES_COPY_IN, Call_PQclear (Some 0),
            Call_PQputCopyData (Some 7) ''a|c|'' 4 1, Call_PQputCopyData (Some 7) ''b|d|'' 4 1,
            Call_PQputCopyEnd (Some 7) 1, Call_PQgetResult (Some 7) (Some 1),
            Call_PQresultStatus (Some 1) PGRES_COMMAND_OK, Call_PQclear (Some 1)]\<rparr>)"
    by (simp add: copy_data_def copy_rows.simps put_row_def conn_def called_def Let_def sim_defs)
  have refused: "copy_data sim_env ''COPY t FROM STDIN'' [[''a'', ''b''], [''c'', ''d'']] sim_one_row =
       (Inl (Rcpp_stop ''Failed to put data: server closed''),
        sim_state\<lparr>world := sim_world\<lparr>sim_accept := 0\<rparr>,
          calls := [Call_PQexec (Some 7) ''COPY t FROM STDIN'' (Some 0),
            Call_PQresultStatus (Some 0) PGRES_COPY_IN, Call_PQclear (Some 0),
            Call_PQputCopyData (Some 7) ''a|c|'' 4 1, Call_PQputCopyData (Some 7) ''b|d|'' 4 (- 1),
            Call_PQerrorMessage (Some 7) ''server closed'']\<rparr>)"
    by (simp add: copy_data_def copy_rows.simps put_row_def conn_def conn_stop_def called_def
        Let_def sim_defs)
  from copy_data_rows [OF cols init] copy_data_rows [OF cols init'] cols init init' run refused
  show ?thesis
    by blast
qed

text \<open>
  Claim C10.  A data frame with a first column of length 0 is not the no-column case:
  \<open>copy_data\<close> executes the statement, fails with "Failed to initialise COPY" unless
  its status is copy-in, submits no row, and goes on to \<open>PQputCopyEnd\<close>, the final
  result and its status test.  The call log always grows.
\<close>

theorem copy_data_no_rows:
  assumes cols: "df \<noteq> []" and rows: "length (df ! 0) = 0"
  shows
   "(let c = pConn (this st);
         pInit = fst (PQexec E c sql (world st));
         w1 = snd (PQexec E c sql (world st));
         w2 = PQclear E pInit w1;
         r = fst (PQputCopyEnd E c w2);
         w3 = snd (PQputCopyEnd E c w2);
         pComplete = fst (PQgetResult E c w3);
         w4 = snd (PQgetResult E c w3);
         w5 = PQclear E pComplete w4;
         init = [Call_PQexec c sql pInit, Call_PQresultStatus pInit (PQresultStatus E pInit w1),
                 Call_PQclear pInit];
         fetch = [Call_PQputCopyEnd c r, Call_PQgetResult c pComplete,
                  Call_PQresultStatus pComplete (PQresultStatus E pComplete w4),
                  Call_PQclear pComplete]
     in copy_data E sql df st =
          (if PQresultStatus E pInit w1 \<noteq> PGRES_COPY_IN
           then (Inl (Rcpp_stop (''Failed to initialise COPY: '' @ PQerrorMessage E c w2)),
                 st\<lparr>world := w2,
                    calls := calls st @ init @ [Call_PQerrorMessage c (PQerrorMessage E c w2)]\<rparr>)
           else if r \<noteq> 1
           then (Inl (Rcpp_stop (''Failed to finish COPY: '' @ PQerrorMessage E c w3)),
                 st\<lparr>world := w3,
                    calls := calls st @ init @ [Call_PQputCopyEnd c r,
                               Call_PQerrorMessage c (PQerrorMessage E c w3)]\<rparr>)
           else if PQresultStatus E pComplete w4 \<noteq> PGRES_COMMAND_OK
           then (Inl (Rcpp_stop (''COPY returned error: '' @ PQerrorMessage E c w5)),
                 st\<lparr>world := w5,
                    calls := calls st @ init @ fetch
                               @ [Call_PQerrorMessage c (PQerrorMessage E c w5)]\<rparr>)
           else (Inr (), st\<lparr>world := w5, calls := calls st @ init @ fetch\<rparr>))
        \<and> filter is_put (init @ fetch) = [])
    \<and> calls (snd (copy_data E sql df st)) \<noteq> calls st"
  using cols rows
  by (simp add: copy_data_def copy_rows.simps [of _ _ 0 0] conn_stop_def called_def conn_def
      Let_def is_put_def case_prod_beta)

theorem copy_data_no_rows_witness:
  "[[], []] \<noteq> ([] :: string list list) \<and> length ([[], []] ! 0 :: string list) = 0
   \<and> copy_data sim_env ''COPY t FROM STDIN'' [[], []] sim_state =
       (Inr (), sim_state\<lparr>world := sim_world\<lparr>sim_pending := []\<rparr>,
          calls := [Call_PQexec (Some 7) ''COPY t FROM STDIN'' (Some 0),
            Call_PQresultStatus (Some 0) PGRES_COPY_IN, Call_PQclear (Some 0),
            Call_PQputCopyEnd (Some 7) 1, Call_PQgetResult (Some 7) (Some 1),
            Call_PQresultStatus (Some 1) PGRES_COMMAND_OK, Call_PQclear (Some 1)]\<rparr>)
   \<and> copy_data sim_env ''COPY t FROM STDIN'' [[], []] sim_no_copy =
       (Inl (Rcpp_stop ''Failed to initialise COPY: server closed''),
        sim_no_copy\<lparr>calls := [Call_PQexec (Some 7) ''COPY t FROM STDIN'' (Some 2),
            Call_PQresultStatus (Some 2) PGRES_TUPLES_OK, Call_PQclear (Some 2),
            Call_PQerrorMessage (Some 7) ''server closed'']\<rparr>)"
  using copy_data_no_rows [where df = "[[], []] :: string list list" and E = sim_env
      and st = sim_state and sql = "''COPY t FROM STDIN''"]
    copy_data_no_rows [where df = "[[], []] :: string list list" and E = sim_env
      and st = sim_no_copy and sql = "''COPY t FROM STDIN''"]
  by (simp add: sim_defs Let_def is_put_def)

subsection \<open>What cleanup leaves alone\<close>

text \<open>
  None of \<open>check_connection\<close>, \<open>cancel_query\<close>, \<open>finish_query\<close> and
  \<open>cleanup_query\<close> writes a field of the object or the cached NULL string, and each
  only appends to the call log.  The one warning they can add is the error buffer of a
  \<open>PQcancel\<close> that returned 0, and then \<open>cancel_query\<close> returns normally.  With
  no tracked result, or a complete one, \<open>cleanup_query\<close> is \<open>finish_query\<close> alone
  and cannot raise.
\<close>

lemma check_connection_frame:
  "check_connection E st = (r, st') \<Longrightarrow>
   this st' = this st \<and> warnings st' = warnings st \<and> null_static st' = null_static st
   \<and> (\<exists>new. calls st' = calls st @ new)"
  by (auto simp: check_connection_def conn_stop_def Let_def split: if_splits)

lemma cancel_query_frame:
  assumes "cancel_query E st = (r, st')"
  shows "this st' = this st \<and> null_static st' = null_static st
    \<and> (r \<noteq> Inr () \<longrightarrow> warnings st' = warnings st)
    \<and> (warnings st' = warnings st
        \<or> (\<exists>cancel errbuf. warnings st' = warnings st @ [errbuf]
              \<and> Call_PQcancel cancel 0 errbuf \<in> set (calls st')))"
proof -
  obtain r1 st1 where cc: "check_connection E st = (r1, st1)"
    by (cases "check_connection E st")
  note f1 = check_connection_frame [OF cc]
  show ?thesis
  proof (cases r1)
    case (Inl e)
    with assms cc f1 show ?thesis by (simp add: cancel_query_def)
  next
    case (Inr u)
    with assms cc f1 show ?thesis
      by (auto simp: cancel_query_def Let_def split: prod.splits if_splits)
  qed
qed

lemma finish_query_frame:
  assumes "finish_query E c st = Some st'"
  shows "this st' = this st \<and> warnings st' = warnings st \<and> null_static st' = null_static st
    \<and> (\<exists>new. calls st' = calls st @ new)"
proof (rule finish_query.raw_induct [where P = "\<lambda>E c st st'. this st' = this st
    \<and> warnings st' = warnings st \<and> null_static st' = null_static st
    \<and> (\<exists>new. calls st' = calls st @ new)", OF _ assms])
  fix fq :: "('a, 'b) env \<Rightarrow> PGconn \<Rightarrow> 'a state \<Rightarrow> 'a state option"
    and E c st st'
  assume IH: "\<And>E c st st'. fq E c st = Some st' \<Longrightarrow>
      this st' = this st \<and> warnings st' = warnings st \<and> null_static st' = null_static st
      \<and> (\<exists>new. calls st' = calls st @ new)"
    and body: "(case PQgetResult E c (world st) of
        (result, w) \<Rightarrow>
          let st1 = called (Call_PQgetResult c result) w st
          in if result \<noteq> None
             then fq E c (called (Call_PQclear result) (PQclear E result (world st1)) st1)
             else Some st1) = Some st'"
  obtain result w where gr: "PQgetResult E c (world st) = (result, w)"
    by (cases "PQgetResult E c (world st)")
  show "this st' = this st \<and> warnings st' = warnings st \<and> null_static st' = null_static st
      \<and> (\<exists>new. calls st' = calls st @ new)"
  proof (cases "result = None")
    case True
    with body gr show ?thesis by (auto simp: Let_def)
  next
    case False
    with body gr
    have "fq E c (called (Call_PQclear result)
            (PQclear E result w) (called (Call_PQgetResult c result) w st)) = Some st'"
      by (simp add: Let_def)
    from IH [OF this] show ?thesis by auto
  qed
qed

lemma cleanup_query_frame:
  assumes "cleanup_query E st = Some (r, st')"
  shows "this st' = this st \<and> null_static st' = null_static st
    \<and> (r \<noteq> Inr () \<longrightarrow> warnings st' = warnings st)
    \<and> (warnings st' = warnings st
        \<or> (\<exists>cancel errbuf. warnings st' = warnings st @ [errbuf]
              \<and> Call_PQcancel cancel 0 errbuf \<in> set (calls st')))
    \<and> (pCurrentResult (this st) = None
          \<or> complete E (the (pCurrentResult (this st))) (world st) \<longrightarrow>
        r = Inr () \<and> warnings st' = warnings st
        \<and> finish_query E (pConn (this st)) st = Some st')"
proof (cases "pCurrentResult (this st) \<noteq> None
         \<and> \<not> complete E (the (pCurrentResult (this st))) (world st)")
  case False
  with assms have fq: "finish_query E (pConn (this st)) st = Some st'" and r: "r = Inr ()"
    by (auto simp: cleanup_query_def)
  from finish_query_frame [OF fq] r fq False show ?thesis by auto
next
  case True
  obtain r1 st1 where cq: "cancel_query E st = (r1, st1)"
    by (cases "cancel_query E st")
  note f1 = cancel_query_frame [OF cq]
  show ?thesis
  proof (cases r1)
    case (Inl e)
    with assms True cq have "r = Inl e" "st' = st1"
      by (auto simp: cleanup_query_def)
    with f1 Inl True show ?thesis by auto
  next
    case (Inr u)
    with assms True cq have fq: "finish_query E (pConn (this st1)) st1 = Some st'" and r: "r = Inr ()"
      by (auto simp: cleanup_query_def)
    from finish_query_frame [OF fq] f1 r True show ?thesis by auto
  qed
qed


text \<open>
  The draining loop ends when finitely many results are pending, and so does cleanup,
  given that for the world in which its loop starts: after \<open>cancel_query\<close> for an
  unfinished result, the world as it is otherwise.
\<close>

lemma finish_query_returns:
  "pending E c n (world st) \<Longrightarrow> \<exists>st'. finish_query E c st = Some st'"
proof (induction n arbitrary: st)
  case 0
  then show ?case
    by (subst finish_query.simps) (simp add: case_prod_beta Let_def)
next
  case (Suc n)
  let ?r = "fst (PQgetResult E c (world st))"
  let ?w = "snd (PQgetResult E c (world st))"
  let ?st2 = "called (Call_PQclear ?r) (PQclear E ?r ?w) (called (Call_PQgetResult c ?r) ?w st)"
  from Suc.prems have "pending E c n (world ?st2)" by simp
  from Suc.IH [OF this] obtain st' where "finish_query E c ?st2 = Some st'" ..
  with Suc.prems show ?case
    by (subst finish_query.simps) (simp add: case_prod_beta Let_def)
qed

lemma cleanup_query_returns:
  assumes "pending E (pConn (this st)) n (world (drain_start E st))"
  shows "\<exists>r st'. cleanup_query E st = Some (r, st')"
proof (cases "pCurrentResult (this st) \<noteq> None
         \<and> \<not> complete E (the (pCurrentResult (this st))) (world st)")
  case False
  then have "drain_start E st = st"
    unfolding drain_start_def by (rule if_not_P)
  with assms have "pending E (pConn (this st)) n (world st)" by simp
  from finish_query_returns [OF this] False show ?thesis
    by (auto simp: cleanup_query_def)
next
  case True
  obtain r1 st1 where cq: "cancel_query E st = (r1, st1)"
    by (cases "cancel_query E st")
  from cancel_query_frame [OF cq] have t: "this st1 = this st" by simp
  from True have "drain_start E st = snd (cancel_query E st)"
    unfolding drain_start_def by (rule if_P)
  with assms cq t have "pending E (pConn (this st1)) n (world st1)" by simp
  from finish_query_returns [OF this] obtain st' where
    "finish_query E (pConn (this st1)) st1 = Some st'" ..
  with True cq show ?thesis
    by (cases r1) (auto simp: cleanup_query_def)
qed

subsection \<open>\<open>reset_current_result\<close>\<close>

text \<open>
  Evaluation of the members on the simulated server unfolds these definitions.
\<close>

lemmas run_defs =
  drain_start_def reset_current_result_def set_current_result_def cleanup_query_def
  cancel_query_def check_connection_def conn_stop_def finish_query.simps is_current_result_def
  has_query_def called_def warning_def conn_def Let_def

text \<open>
  Claim C6, as the code has it.  \<open>reset_current_result\<close> with a pointer other than
  the tracked one returns and leaves the whole state unchanged.  With the tracked
  pointer it runs \<open>cleanup_query\<close>; when that returns normally it stores NULL, all
  other fields of the object keep their values and \<open>has_query\<close> is false; when
  \<open>cleanup_query\<close> raises, the error leaves \<open>reset_current_result\<close> before the
  store and \<open>has_query\<close> answers as before.  When the tracked result is NULL or
  complete, cleanup is the draining loop alone and cannot raise.  The call returns,
  normally or with an error, whenever finitely many results are pending where the
  draining loop starts.  After a construction that returned normally \<open>has_query\<close> is
  false.
\<close>

theorem reset_current_result_cases:
  "(pResult \<noteq> pCurrentResult (this st) \<longrightarrow> reset_current_result E pResult st = Some (Inr (), st))
   \<and> (pResult = pCurrentResult (this st) \<and> cleanup_query E st = Some (Inr (), st1) \<longrightarrow>
        reset_current_result E pResult st =
          Some (Inr (), st1\<lparr>this := (this st)\<lparr>pCurrentResult := None\<rparr>\<rparr>)
        \<and> \<not> has_query (st1\<lparr>this := (this st)\<lparr>pCurrentResult := None\<rparr>\<rparr>))
   \<and> (pResult = pCurrentResult (this st) \<and> cleanup_query E st = Some (Inl e, st2) \<longrightarrow>
        reset_current_result E pResult st = Some (Inl e, st2)
        \<and> has_query st2 = has_query st)
   \<and> (pResult = pCurrentResult (this st)
        \<and> (pResult = None \<or> complete E (the pResult) (world st)) \<longrightarrow>
        reset_current_result E pResult st =
          map_option (\<lambda>s. (Inr (), s\<lparr>this := (this st)\<lparr>pCurrentResult := None\<rparr>\<rparr>))
            (finish_query E (pConn (this st)) st))
   \<and> (pResult = pCurrentResult (this st)
        \<and> pending E (pConn (this st)) n (world (drain_start E st)) \<longrightarrow>
        reset_current_result E pResult st \<noteq> None)
   \<and> (DbConnection_new E keys vals chk st0 = (Inr (), st3) \<longrightarrow> \<not> has_query st3)"
proof (intro conjI impI)
  show "reset_current_result E pResult st = Some (Inr (), st)"
    if "pResult \<noteq> pCurrentResult (this st)"
    using that by (simp add: reset_current_result_def)
next
  assume a: "pResult = pCurrentResult (this st) \<and> cleanup_query E st = Some (Inr (), st1)"
  then have "this st1 = this st" using cleanup_query_frame [of E st "Inr ()" st1] by simp
  with a show "reset_current_result E pResult st =
          Some (Inr (), st1\<lparr>this := (this st)\<lparr>pCurrentResult := None\<rparr>\<rparr>)"
    by (simp add: reset_current_result_def)
  show "\<not> has_query (st1\<lparr>this := (this st)\<lparr>pCurrentResult := None\<rparr>\<rparr>)"
    by (simp add: has_query_def)
next
  assume a: "pResult = pCurrentResult (this st) \<and> cleanup_query E st = Some (Inl e, st2)"
  then have "this st2 = this st" using cleanup_query_frame [of E st "Inl e" st2] by simp
  then show "has_query st2 = has_query st" by (simp add: has_query_def)
  from a show "reset_current_result E pResult st = Some (Inl e, st2)"
    by (simp add: reset_current_result_def)
next
  assume a: "pResult = pCurrentResult (this st)
        \<and> (pResult = None \<or> complete E (the pResult) (world st))"
  then have cq: "cleanup_query E st = map_option (Pair (Inr ())) (finish_query E (pConn (this st)) st)"
    by (auto simp: cleanup_query_def)
  show "reset_current_result E pResult st =
          map_option (\<lambda>s. (Inr (), s\<lparr>this := (this st)\<lparr>pCurrentResult := None\<rparr>\<rparr>))
            (finish_query E (pConn (this st)) st)"
  proof (cases "finish_query E (pConn (this st)) st")
    case None
    with a cq show ?thesis by (simp add: reset_current_result_def)
  next
    case (Some s)
    from finish_query_frame [OF Some] have "this s = this st" by simp
    with a cq Some show ?thesis by (simp add: reset_current_result_def)
  qed
next
  assume a: "pResult = pCurrentResult (this st)
        \<and> pending E (pConn (this st)) n (world (drain_start E st))"
  then have "pending E (pConn (this st)) n (world (drain_start E st))" ..
  from cleanup_query_returns [OF this]
  obtain r s' where "cleanup_query E st = Some (r, s')"
    by blast
  with a show "reset_current_result E pResult st \<noteq> None"
    by (cases r) (simp_all add: reset_current_result_def)
next
  show "\<not> has_query st3" if "DbConnection_new E keys vals chk st0 = (Inr (), st3)"
    using that
    by (auto simp: DbConnection_new_def has_query_def Let_def conn_def
        split: if_splits prod.splits)
qed

theorem reset_current_result_cases_witness:
  "pending sim_env (pConn (this sim_querying)) 1 (world (drain_start sim_env sim_querying))
   \<and> (Some 2 \<noteq> pCurrentResult (this sim_querying)
    \<and> reset_current_result sim_env (Some 2) sim_querying = Some (Inr (), sim_querying))
   \<and> (Some 1 = pCurrentResult (this sim_querying)
    \<and> cleanup_query sim_env sim_querying =
        Some (Inr (), sim_querying\<lparr>world := sim_world\<lparr>sim_pending := []\<rparr>,
          calls := [Call_PQstatus (Some 7) CONNECTION_OK, Call_PQgetCancel (Some 7) (Some 5),
            Call_PQcancel (Some 5) 1 [], Call_PQfreeCancel (Some 5),
            Call_PQgetResult (Some 7) (Some 1), Call_PQclear (Some 1),
            Call_PQgetResult (Some 7) None]\<rparr>)
    \<and> reset_current_result sim_env (Some 1) sim_querying =
        Some (Inr (), sim_state\<lparr>world := sim_world\<lparr>sim_pending := []\<rparr>,
          calls := [Call_PQstatus (Some 7) CONNECTION_OK, Call_PQgetCancel (Some 7) (Some 5),
            Call_PQcancel (Some 5) 1 [], Call_PQfreeCancel (Some 5),
            Call_PQgetResult (Some 7) (Some 1), Call_PQclear (Some 1),
            Call_PQgetResult (Some 7) None]\<rparr>))
   \<and> (Some 1 = pCurrentResult (this sim_orphan)
    \<and> cleanup_query sim_env sim_orphan = Some (Inl (Rcpp_stop ''Disconnected''), sim_orphan)
    \<and> reset_current_result sim_env (Some 1) sim_orphan =
        Some (Inl (Rcpp_stop ''Disconnected''), sim_orphan))
   \<and> (Some 100 = pCurrentResult (this sim_fetched)
    \<and> complete sim_env (the (Some 100)) (world sim_fetched)
    \<and> reset_current_result sim_env (Some 100) sim_fetched =
        Some (Inr (), sim_state\<lparr>world := sim_world\<lparr>sim_pending := []\<rparr>,
          calls := [Call_PQgetResult (Some 7) (Some 1), Call_PQclear (Some 1),
            Call_PQgetResult (Some 7) None]\<rparr>))
   \<and> (DbConnection_new sim_env [''host'', ''dbname''] [''localhost'', ''test''] True sim_orphan =
        (Inr (), sim_state\<lparr>calls := [Call_PQconnectdbParams [Some ''host'', Some ''dbname'', None]
            [Some ''localhost'', Some ''test'', None] False (Some 7),
            Call_PQstatus (Some 7) CONNECTION_OK,
            Call_PQsetClientEncoding (Some 7) ''UTF-8'']\<rparr>)
    \<and> \<not> has_query (sim_state\<lparr>calls := [Call_PQconnectdbParams [Some ''host'', Some ''dbname'', None]
            [Some ''localhost'', Some ''test'', None] False (Some 7),
            Call_PQstatus (Some 7) CONNECTION_OK,
            Call_PQsetClientEncoding (Some 7) ''UTF-8'']\<rparr>))"
  using
    reset_current_result_cases [where E = sim_env and pResult = "Some 2" and st = sim_querying
      and ?st1.0 = sim_querying and e = Undefined_behaviour and ?st2.0 = sim_querying
      and n = 1 and keys = "[]" and vals = "[]" and chk = True and ?st0.0 = sim_orphan and ?st3.0 = sim_orphan]
    reset_current_result_cases [where E = sim_env and pResult = "Some 1" and st = sim_querying
      and ?st1.0 = "sim_querying\<lparr>world := sim_world\<lparr>sim_pending := []\<rparr>,
          calls := [Call_PQstatus (Some 7) CONNECTION_OK, Call_PQgetCancel (Some 7) (Some 5),
            Call_PQcancel (Some 5) 1 [], Call_PQfreeCancel (Some 5),
            Call_PQgetResult (Some 7) (Some 1), Call_PQclear (Some 1),
            Call_PQgetResult (Some 7) None]\<rparr>"
      and e = Undefined_behaviour and ?st2.0 = sim_querying
      and n = 1 and keys = "[''host'', ''dbname'']" and vals = "[''localhost'', ''test'']" and chk = True
      and ?st0.0 = sim_orphan
      and ?st3.0 = "sim_state\<lparr>calls := [Call_PQconnectdbParams [Some ''host'', Some ''dbname'', None]
            [Some ''localhost'', Some ''test'', None] False (Some 7),
            Call_PQstatus (Some 7) CONNECTION_OK,
            Call_PQsetClientEncoding (Some 7) ''UTF-8'']\<rparr>"]
    reset_current_result_cases [where E = sim_env and pResult = "Some 1" and st = sim_orphan
      and ?st1.0 = sim_querying and e = "Rcpp_stop ''Disconnected''" and ?st2.0 = sim_orphan
      and n = 1 and keys = "[]" and vals = "[]" and chk = True and ?st0.0 = sim_orphan and ?st3.0 = sim_orphan]
    reset_current_result_cases [where E = sim_env and pResult = "Some 100" and st = sim_fetched
      and ?st1.0 = sim_querying and e = Undefined_behaviour and ?st2.0 = sim_querying
      and n = 1 and keys = "[]" and vals = "[]" and chk = True and ?st0.0 = sim_orphan and ?st3.0 = sim_orphan]
  by (simp add: run_defs DbConnection_new_def sim_defs One_nat_def)

text \<open>
  Claim C6 as stated fails when cleanup raises.  The object was disconnected while the
  unfinished result 1 was tracked: \<open>cleanup_query\<close> calls \<open>cancel_query\<close>, whose
  \<open>check_connection\<close> stops with "Disconnected", so the pointer is never cleared and
  \<open>has_query\<close> is still true.
\<close>

theorem reset_current_result_counterexample:
  "is_current_result (Some 1) sim_orphan
   \<and> reset_current_result sim_env (Some 1) sim_orphan
       = Some (Inl (Rcpp_stop ''Disconnected''), sim_orphan)
   \<and> has_query sim_orphan"
  by (simp add: is_current_result_def has_query_def reset_current_result_def cleanup_query_def
      cancel_query_def check_connection_def sim_defs)

subsection \<open>\<open>set_current_result\<close>\<close>

text \<open>
  Claim C1, as the code has it.  \<open>set_current_result\<close> with the pointer that is
  already tracked returns and changes nothing: no warning, no cleanup, no library call;
  so a second call with the same pointer right after a first that returned is such a
  no-op.  With nothing tracked it only stores the pointer.  With another result tracked
  it first emits, when the new pointer is not NULL, the one warning "Closing open result
  set, cancelling previous query" (none when it is NULL), then runs \<open>cleanup_query\<close>.
  When cleanup returns normally the new pointer is stored, the other fields keep their
  values, and the warnings are the old ones, that warning, and at most the error buffer
  of a \<open>PQcancel\<close> that returned 0 (none when the previous result was complete).
  When cleanup raises, the error leaves \<open>set_current_result\<close>, the previous pointer
  stays tracked, and no warning beyond that one was added.  The call returns, normally
  or with an error, whenever finitely many results are pending where the draining loop
  starts.
\<close>

theorem set_current_result_cases:
  "(let W = ''Closing open result set, cancelling previous query'';
        cur = pCurrentResult (this st);
        st0 = (if pResult \<noteq> None then warning W st else st);
        ws0 = warnings st @ (if pResult \<noteq> None then [W] else [])
    in (pResult = cur \<longrightarrow> set_current_result E pResult st = Some (Inr (), st))
     \<and> (set_current_result E pResult st = Some (Inr (), st') \<longrightarrow>
          set_current_result E pResult st' = Some (Inr (), st'))
     \<and> (pResult \<noteq> cur \<and> cur = None \<longrightarrow>
          set_current_result E pResult st =
            Some (Inr (), st\<lparr>this := (this st)\<lparr>pCurrentResult := pResult\<rparr>\<rparr>))
     \<and> (pResult \<noteq> cur \<and> cur \<noteq> None \<and> cleanup_query E st0 = Some (Inr (), st1) \<longrightarrow>
          set_current_result E pResult st =
            Some (Inr (), st1\<lparr>this := (this st)\<lparr>pCurrentResult := pResult\<rparr>\<rparr>)
          \<and> (warnings st1 = ws0
              \<or> (\<exists>cancel errbuf. warnings st1 = ws0 @ [errbuf]
                    \<and> Call_PQcancel cancel 0 errbuf \<in> set (calls st1)))
          \<and> (complete E (the cur) (world st) \<longrightarrow> warnings st1 = ws0))
     \<and> (pResult \<noteq> cur \<and> cur \<noteq> None \<and> cleanup_query E st0 = Some (Inl e, st2) \<longrightarrow>
          set_current_result E pResult st = Some (Inl e, st2)
          \<and> pCurrentResult (this st2) = cur \<and> warnings st2 = ws0)
     \<and> (pResult \<noteq> cur \<and> cur \<noteq> None
          \<and> pending E (pConn (this st)) n (world (drain_start E st0)) \<longrightarrow>
          set_current_result E pResult st \<noteq> None))"
proof -
  let ?W = "''Closing open result set, cancelling previous query''"
  let ?cur = "pCurrentResult (this st)"
  let ?st0 = "if pResult \<noteq> None then warning ?W st else st"
  let ?ws0 = "warnings st @ (if pResult \<noteq> None then [?W] else [])"
  have st0: "this ?st0 = this st" "warnings ?st0 = ?ws0" "world ?st0 = world st"
    by simp_all
  have same: "set_current_result E pResult st = Some (Inr (), st)" if "pResult = ?cur"
    using that by (simp add: set_current_result_def)
  have tracked: "pCurrentResult (this st') = pResult"
    if ret: "set_current_result E pResult st = Some (Inr (), st')"
  proof (cases "pResult = ?cur")
    case True
    with ret show ?thesis by (simp add: set_current_result_def)
  next
    case False
    with ret show ?thesis
      by (auto simp: set_current_result_def split: if_splits option.splits sum.splits)
  qed
  have again: "set_current_result E pResult st' = Some (Inr (), st')"
    if "set_current_result E pResult st = Some (Inr (), st')"
    using tracked [OF that] by (simp add: set_current_result_def)
  have first: "set_current_result E pResult st =
      Some (Inr (), st\<lparr>this := (this st)\<lparr>pCurrentResult := pResult\<rparr>\<rparr>)"
    if "pResult \<noteq> ?cur \<and> ?cur = None"
    using that by (auto simp: set_current_result_def)
  have normal: "set_current_result E pResult st =
            Some (Inr (), st1\<lparr>this := (this st)\<lparr>pCurrentResult := pResult\<rparr>\<rparr>)
          \<and> (warnings st1 = ?ws0
              \<or> (\<exists>cancel errbuf. warnings st1 = ?ws0 @ [errbuf]
                    \<and> Call_PQcancel cancel 0 errbuf \<in> set (calls st1)))
          \<and> (complete E (the ?cur) (world st) \<longrightarrow> warnings st1 = ?ws0)"
    if a: "pResult \<noteq> ?cur \<and> ?cur \<noteq> None \<and> cleanup_query E ?st0 = Some (Inr (), st1)"
  proof -
    from a have cq: "cleanup_query E ?st0 = Some (Inr (), st1)" by simp
    note fr = cleanup_query_frame [OF cq]
    from fr st0 have t: "this st1 = this st" by simp
    from a t have "set_current_result E pResult st =
            Some (Inr (), st1\<lparr>this := (this st)\<lparr>pCurrentResult := pResult\<rparr>\<rparr>)"
      by (simp add: set_current_result_def)
    moreover from fr st0 have "warnings st1 = ?ws0
              \<or> (\<exists>cancel errbuf. warnings st1 = ?ws0 @ [errbuf]
                    \<and> Call_PQcancel cancel 0 errbuf \<in> set (calls st1))"
      by metis
    moreover from fr st0 have "complete E (the ?cur) (world st) \<longrightarrow> warnings st1 = ?ws0"
      by metis
    ultimately show ?thesis by blast
  qed
  have raised: "set_current_result E pResult st = Some (Inl e, st2)
          \<and> pCurrentResult (this st2) = ?cur \<and> warnings st2 = ?ws0"
    if a: "pResult \<noteq> ?cur \<and> ?cur \<noteq> None \<and> cleanup_query E ?st0 = Some (Inl e, st2)"
  proof -
    from a have cq: "cleanup_query E ?st0 = Some (Inl e, st2)" by simp
    note fr = cleanup_query_frame [OF cq]
    from fr st0 have "this st2 = this st" "warnings st2 = ?ws0" by simp_all
    moreover from a have "set_current_result E pResult st = Some (Inl e, st2)"
      by (simp add: set_current_result_def)
    ultimately show ?thesis by simp
  qed
  have returns: "set_current_result E pResult st \<noteq> None"
    if a: "pResult \<noteq> ?cur \<and> ?cur \<noteq> None
          \<and> pending E (pConn (this st)) n (world (drain_start E ?st0))"
  proof -
    from a st0 have "pending E (pConn (this ?st0)) n (world (drain_start E ?st0))"
      by (simp only:)
    from cleanup_query_returns [OF this]
    obtain r s' where cq: "cleanup_query E ?st0 = Some (r, s')"
      by blast
    with a show ?thesis
      by (cases r) (simp_all add: set_current_result_def)
  qed
  from same again first normal raised returns show ?thesis
    unfolding Let_def by blast
qed

theorem set_current_result_cases_witness:
  "pending sim_env (pConn (this sim_busy)) 2
      (world (drain_start sim_env
         (warning ''Closing open result set, cancelling previous query'' sim_busy)))
   \<and> (Some 1 = pCurrentResult (this sim_querying)
    \<and> set_current_result sim_env (Some 1) sim_querying = Some (Inr (), sim_querying))
   \<and> (Some 2 \<noteq> pCurrentResult (this sim_state) \<and> pCurrentResult (this sim_state) = None
    \<and> set_current_result sim_env (Some 2) sim_state =
        Some (Inr (), sim_state\<lparr>this := (this sim_state)\<lparr>pCurrentResult := Some 2\<rparr>\<rparr>)
    \<and> set_current_result sim_env (Some 2)
          (sim_state\<lparr>this := (this sim_state)\<lparr>pCurrentResult := Some 2\<rparr>\<rparr>) =
        Some (Inr (), sim_state\<lparr>this := (this sim_state)\<lparr>pCurrentResult := Some 2\<rparr>\<rparr>))
   \<and> (Some 2 \<noteq> pCurrentResult (this sim_busy) \<and> pCurrentResult (this sim_busy) \<noteq> None
    \<and> cleanup_query sim_env
          (warning ''Closing open result set, cancelling previous query'' sim_busy) =
        Some (Inr (), sim_busy\<lparr>world := sim_world\<lparr>sim_cancel := 0, sim_pending := []\<rparr>,
          calls := [Call_PQstatus (Some 7) CONNECTION_OK, Call_PQgetCancel (Some 7) (Some 5),
                   Call_PQcancel (Some 5) 0 ''cancel refused'', Call_PQfreeCancel (Some 5),
                   Call_PQgetResult (Some 7) (Some 3), Call_PQclear (Some 3),
                   Call_PQgetResult (Some 7) (Some 4), Call_PQclear (Some 4),
                   Call_PQgetResult (Some 7) None],
          warnings := [''Closing open result set, cancelling previous query'', ''cancel refused'']\<rparr>)
    \<and> set_current_result sim_env (Some 2) sim_busy =
        Some (Inr (), sim_busy\<lparr>this := (this sim_busy)\<lparr>pCurrentResult := Some 2\<rparr>,
          world := sim_world\<lparr>sim_cancel := 0, sim_pending := []\<rparr>,
          calls := [Call_PQstatus (Some 7) CONNECTION_OK, Call_PQgetCancel (Some 7) (Some 5),
                   Call_PQcancel (Some 5) 0 ''cancel refused'', Call_PQfreeCancel (Some 5),
                   Call_PQgetResult (Some 7) (Some 3), Call_PQclear (Some 3),
                   Call_PQgetResult (Some 7) (Some 4), Call_PQclear (Some 4),
                   Call_PQgetResult (Some 7) None],
          warnings := [''Closing open result set, cancelling previous query'', ''cancel refused'']\<rparr>))
   \<and> (None \<noteq> pCurrentResult (this sim_fetched) \<and> pCurrentResult (this sim_fetched) \<noteq> None
    \<and> complete sim_env (the (pCurrentResult (this sim_fetched))) (world sim_fetched)
    \<and> cleanup_query sim_env sim_fetched =
        Some (Inr (), sim_fetched\<lparr>world := sim_world\<lparr>sim_pending := []\<rparr>,
          calls := [Call_PQgetResult (Some 7) (Some 1), Call_PQclear (Some 1),
                    Call_PQgetResult (Some 7) None]\<rparr>)
    \<and> set_current_result sim_env None sim_fetched =
        Some (Inr (), sim_state\<lparr>world := sim_world\<lparr>sim_pending := []\<rparr>,
          calls := [Call_PQgetResult (Some 7) (Some 1), Call_PQclear (Some 1),
                    Call_PQgetResult (Some 7) None]\<rparr>))
   \<and> (Some 2 \<noteq> pCurrentResult (this sim_orphan) \<and> pCurrentResult (this sim_orphan) \<noteq> None
    \<and> cleanup_query sim_env
          (warning ''Closing open result set, cancelling previous query'' sim_orphan) =
        Some (Inl (Rcpp_stop ''Disconnected''),
              sim_orphan\<lparr>warnings := [''Closing open result set, cancelling previous query'']\<rparr>)
    \<and> set_current_result sim_env (Some 2) sim_orphan =
        Some (Inl (Rcpp_stop ''Disconnected''),
              sim_orphan\<lparr>warnings := [''Closing open result set, cancelling previous query'']\<rparr>))"
  using
    set_current_result_cases [where E = sim_env and pResult = "Some 1" and st = sim_querying
      and st' = sim_querying and ?st1.0 = sim_state and n = 2 and e = Undefined_behaviour
      and ?st2.0 = sim_state]
    set_current_result_cases [where E = sim_env and pResult = "Some 2" and st = sim_state
      and st' = "sim_state\<lparr>this := (this sim_state)\<lparr>pCurrentResult := Some 2\<rparr>\<rparr>"
      and ?st1.0 = sim_state and n = 2 and e = Undefined_behaviour and ?st2.0 = sim_state]
    set_current_result_cases [where E = sim_env and pResult = "Some 2" and st = sim_busy
      and st' = sim_state
      and ?st1.0 = "sim_busy\<lparr>world := sim_world\<lparr>sim_cancel := 0, sim_pending := []\<rparr>,
          calls := [Call_PQstatus (Some 7) CONNECTION_OK, Call_PQgetCancel (Some 7) (Some 5),
                   Call_PQcancel (Some 5) 0 ''cancel refused'', Call_PQfreeCancel (Some 5),
                   Call_PQgetResult (Some 7) (Some 3), Call_PQclear (Some 3),
                   Call_PQgetResult (Some 7) (Some 4), Call_PQclear (Some 4),
                   Call_PQgetResult (Some 7) None],
          warnings := [''Closing open result set, cancelling previous query'', ''cancel refused'']\<rparr>"
      and n = 2 and e = Undefined_behaviour and ?st2.0 = sim_state]
    set_current_result_cases [where E = sim_env and pResult = None and st = sim_fetched
      and st' = sim_state
      and ?st1.0 = "sim_fetched\<lparr>world := sim_world\<lparr>sim_pending := []\<rparr>,
          calls := [Call_PQgetResult (Some 7) (Some 1), Call_PQclear (Some 1),
                    Call_PQgetResult (Some 7) None]\<rparr>"
      and n = 2 and e = Undefined_behaviour and ?st2.0 = sim_state]
    set_current_result_cases [where E = sim_env and pResult = "Some 2" and st = sim_orphan
      and st' = sim_state and ?st1.0 = sim_state and n = 2 and e = "Rcpp_stop ''Disconnected''"
      and ?st2.0 = "sim_orphan\<lparr>warnings := [''Closing open result set, cancelling previous query'']\<rparr>"]
  by (simp add: run_defs sim_defs numeral_2_eq_2)

text \<open>
  Claim C1 as stated fails in two runs from the unfinished result 1 to result 2.  On a
  disconnected object cleanup stops in \<open>check_connection\<close>: one warning, but result 1
  stays tracked.  On a server that refuses the cancel request, result 2 becomes tracked
  and there are two warnings, the second from \<open>cancel_query\<close>.
\<close>

theorem set_current_result_counterexample:
  "set_current_result sim_env (Some 1) (sim_orphan\<lparr>this := (this sim_orphan)\<lparr>pCurrentResult := None\<rparr>\<rparr>)
     = Some (Inr (), sim_orphan)
   \<and> set_current_result sim_env (Some 2) sim_orphan =
       Some (Inl (Rcpp_stop ''Disconnected''),
         \<lparr>this = \<lparr>pConn = None, pCurrentResult = Some 1, transacting = False,
                  check_interrupts = True\<rparr>,
          world = sim_world, calls = [],
          warnings = [''Closing open result set, cancelling previous query''],
          null_static = None\<rparr>)
   \<and> set_current_result sim_env (Some 1) (sim_busy\<lparr>this := (this sim_busy)\<lparr>pCurrentResult := None\<rparr>\<rparr>)
     = Some (Inr (), sim_busy)
   \<and> set_current_result sim_env (Some 2) sim_busy =
       Some (Inr (),
         \<lparr>this = \<lparr>pConn = Some 7, pCurrentResult = Some 2, transacting = False,
                  check_interrupts = True\<rparr>,
          world = sim_world\<lparr>sim_cancel := 0, sim_pending := []\<rparr>,
          calls = [Call_PQstatus (Some 7) CONNECTION_OK, Call_PQgetCancel (Some 7) (Some 5),
                   Call_PQcancel (Some 5) 0 ''cancel refused'', Call_PQfreeCancel (Some 5),
                   Call_PQgetResult (Some 7) (Some 3), Call_PQclear (Some 3),
                   Call_PQgetResult (Some 7) (Some 4), Call_PQclear (Some 4),
                   Call_PQgetResult (Some 7) None],
          warnings = [''Closing open result set, cancelling previous query'', ''cancel refused''],
          null_static = None\<rparr>)"
  by (simp add: run_defs sim_defs)

subsection \<open>\<open>disconnect\<close>\<close>

text \<open>
  Claim C9.  \<open>disconnect\<close> hands the handle to \<open>PQfinish\<close> and stores NULL; it has
  no error result.  A second \<open>disconnect\<close> finds NULL, leaves every field of the
  object as the first call left it, and its only act is the call \<open>PQfinish(NULL)\<close>,
  which libpq defines to do nothing: given that, the state after two calls is the
  state after one, apart from that entry in the call log.
\<close>

theorem disconnect_twice:
  "disconnect E st =
     st\<lparr>this := (this st)\<lparr>pConn := None\<rparr>, world := PQfinish E (pConn (this st)) (world st),
        calls := calls st @ [Call_PQfinish (pConn (this st))]\<rparr>
   \<and> pConn (this (disconnect E st)) = None
   \<and> pConn (this (disconnect E (disconnect E st))) = None
   \<and> this (disconnect E (disconnect E st)) = this (disconnect E st)
   \<and> warnings (disconnect E (disconnect E st)) = warnings (disconnect E st)
   \<and> null_static (disconnect E (disconnect E st)) = null_static (disconnect E st)
   \<and> calls (disconnect E (disconnect E st)) = calls (disconnect E st) @ [Call_PQfinish None]
   \<and> world (disconnect E (disconnect E st)) = PQfinish E None (world (disconnect E st))
   \<and> (PQfinish E None (world (disconnect E st)) = world (disconnect E st) \<longrightarrow>
        disconnect E (disconnect E st) =
          (disconnect E st)\<lparr>calls := calls (disconnect E st) @ [Call_PQfinish None]\<rparr>)"
  by (simp add: disconnect_def called_def Let_def)

theorem disconnect_twice_witness:
  "PQfinish sim_env None (world (disconnect sim_env sim_querying)) = world (disconnect sim_env sim_querying)
   \<and> disconnect sim_env sim_querying = sim_orphan\<lparr>calls := [Call_PQfinish (Some 7)]\<rparr>
   \<and> disconnect sim_env (disconnect sim_env sim_querying) =
       sim_orphan\<lparr>calls := [Call_PQfinish (Some 7), Call_PQfinish None]\<rparr>"
  using disconnect_twice [of sim_env sim_querying]
  by (simp add: disconnect_def called_def Let_def sim_defs)

subsection \<open>Quoting\<close>

lemmas quote_defs =
  quote_string_def quote_identifier_def get_null_string_def check_connection_def conn_stop_def
  called_def conn_def Let_def is_escape_def

text \<open>
  What \<open>quote_string\<close> does.  It starts with \<open>check_connection\<close>, and an error
  of that check is its result whatever the argument.  On \<open>NA_STRING\<close> it never
  calls an escaping routine.  When the check passes on \<open>NA_STRING\<close>, the first call
  creates the CHARSXP "NULL" with \<open>Rf_mkCharCE\<close>, stores it in the static variable
  and returns it; every later call returns the stored pointer and creates nothing.
  When the check passes on a present string and \<open>PQescapeLiteral\<close> returns a buffer,
  the calls after the check are \<open>PQescapeLiteral\<close>, \<open>Rf_mkCharCE\<close> on the buffer
  and \<open>PQfreemem\<close> on the buffer, in this order, and the CHARSXP is returned.
\<close>

lemma quote_string_cases:
  "filter is_escape (calls (snd (quote_string E None st))) = filter is_escape (calls st)
   \<and> (check_connection E st = (Inl e, st1) \<longrightarrow> quote_string E x st = (Inl e, st1))
   \<and> (check_connection E st = (Inr (), st2) \<and> null_static st = None \<longrightarrow>
        (let r = fst (Rf_mkCharCE E ''NULL'' (world st2));
             st3 = st2\<lparr>world := snd (Rf_mkCharCE E ''NULL'' (world st2)),
                       calls := calls st2 @ [Call_Rf_mkCharCE ''NULL'' r],
                       null_static := Some r\<rparr>
         in quote_string E None st = (Inr r, st3)
            \<and> (check_connection E st3 = (Inr (), st4) \<longrightarrow> quote_string E None st3 = (Inr r, st4))))
   \<and> (check_connection E st = (Inr (), st2) \<and> null_static st = Some r' \<longrightarrow>
        quote_string E None st = (Inr r', st2))
   \<and> (check_connection E st = (Inr (), st2)
        \<and> fst (PQescapeLiteral E (pConn (this st)) s (world st2)) = Some b \<longrightarrow>
        (let w = snd (PQescapeLiteral E (pConn (this st)) s (world st2));
             escaped = fst (Rf_mkCharCE E b w);
             w' = snd (Rf_mkCharCE E b w)
         in quote_string E (Some s) st =
              (Inr escaped,
               st2\<lparr>world := PQfreemem E (Some b) w',
                   calls := calls st2 @ [Call_PQescapeLiteral (pConn (this st)) s (Some b),
                                         Call_Rf_mkCharCE b escaped, Call_PQfreemem (Some b)]\<rparr>)))"
proof (intro conjI impI)
  obtain r1 st1 where cc: "check_connection E st = (r1, st1)"
    by (cases "check_connection E st")
  have "filter is_escape (calls st1) = filter is_escape (calls st)"
    using cc
    by (auto simp: check_connection_def conn_stop_def Let_def is_escape_def split: if_splits)
  with cc show "filter is_escape (calls (snd (quote_string E None st))) = filter is_escape (calls st)"
    by (cases r1)
      (auto simp: quote_string_def get_null_string_def is_escape_def split: option.splits prod.splits)
next
  show "quote_string E x st = (Inl e, st1)" if "check_connection E st = (Inl e, st1)"
    using that by (simp add: quote_string_def)
next
  assume a: "check_connection E st = (Inr (), st2) \<and> null_static st = None"
  with check_connection_frame [of E st "Inr ()" st2] have ns: "null_static st2 = None"
    by simp
  with a show "let r = fst (Rf_mkCharCE E ''NULL'' (world st2));
             st3 = st2\<lparr>world := snd (Rf_mkCharCE E ''NULL'' (world st2)),
                       calls := calls st2 @ [Call_Rf_mkCharCE ''NULL'' r],
                       null_static := Some r\<rparr>
         in quote_string E None st = (Inr r, st3)
            \<and> (check_connection E st3 = (Inr (), st4) \<longrightarrow> quote_string E None st3 = (Inr r, st4))"
    using check_connection_frame [of E "st2\<lparr>world := snd (Rf_mkCharCE E ''NULL'' (world st2)),
                       calls := calls st2 @ [Call_Rf_mkCharCE ''NULL'' (fst (Rf_mkCharCE E ''NULL'' (world st2)))],
                       null_static := Some (fst (Rf_mkCharCE E ''NULL'' (world st2)))\<rparr>" "Inr ()" st4]
    by (auto simp: quote_string_def get_null_string_def called_def Let_def split: prod.splits)
next
  assume a: "check_connection E st = (Inr (), st2) \<and> null_static st = Some r'"
  with check_connection_frame [of E st "Inr ()" st2] have "null_static st2 = Some r'"
    by simp
  with a show "quote_string E None st = (Inr r', st2)"
    by (simp add: quote_string_def get_null_string_def)
next
  assume a: "check_connection E st = (Inr (), st2)
        \<and> fst (PQescapeLiteral E (pConn (this st)) s (world st2)) = Some b"
  with check_connection_frame [of E st "Inr ()" st2] have "this st2 = this st"
    by simp
  with a show "let w = snd (PQescapeLiteral E (pConn (this st)) s (world st2));
             escaped = fst (Rf_mkCharCE E b w);
             w' = snd (Rf_mkCharCE E b w)
         in quote_string E (Some s) st =
              (Inr escaped,
               st2\<lparr>world := PQfreemem E (Some b) w',
                   calls := calls st2 @ [Call_PQescapeLiteral (pConn (this st)) s (Some b),
                                         Call_Rf_mkCharCE b escaped, Call_PQfreemem (Some b)]\<rparr>)"
    by (simp add: quote_string_def called_def Let_def case_prod_beta)
qed

lemma quote_string_cases_run:
  "(check_connection sim_env sim_disconnected = (Inl (Rcpp_stop ''Disconnected''), sim_disconnected)
    \<and> quote_string sim_env None sim_disconnected =
        (Inl (Rcpp_stop ''Disconnected''), sim_disconnected))
   \<and> (check_connection sim_env sim_state =
         (Inr (), sim_state\<lparr>calls := [Call_PQstatus (Some 7) CONNECTION_OK]\<rparr>)
    \<and> null_static sim_state = None
    \<and> quote_string sim_env None sim_state =
        (Inr 40, sim_state\<lparr>world := sim_world\<lparr>sim_heap := 41\<rparr>,
           calls := [Call_PQstatus (Some 7) CONNECTION_OK, Call_Rf_mkCharCE ''NULL'' 40],
           null_static := Some 40\<rparr>)
    \<and> quote_string sim_env None
         (sim_state\<lparr>world := sim_world\<lparr>sim_heap := 41\<rparr>,
            calls := [Call_PQstatus (Some 7) CONNECTION_OK, Call_Rf_mkCharCE ''NULL'' 40],
            null_static := Some 40\<rparr>) =
        (Inr 40, sim_state\<lparr>world := sim_world\<lparr>sim_heap := 41\<rparr>,
           calls := [Call_PQstatus (Some 7) CONNECTION_OK, Call_Rf_mkCharCE ''NULL'' 40,
                     Call_PQstatus (Some 7) CONNECTION_OK],
           null_static := Some 40\<rparr>))
   \<and> (fst (PQescapeLiteral sim_env (pConn (this sim_state)) ''a b''
              (world (sim_state\<lparr>calls := [Call_PQstatus (Some 7) CONNECTION_OK]\<rparr>))) = Some ''<a b>''
    \<and> quote_string sim_env (Some ''a b'') sim_state =
        (Inr 40, sim_state\<lparr>world := sim_world\<lparr>sim_heap := 41\<rparr>,
           calls := [Call_PQstatus (Some 7) CONNECTION_OK,
                     Call_PQescapeLiteral (Some 7) ''a b'' (Some ''<a b>''),
                     Call_Rf_mkCharCE ''<a b>'' 40, Call_PQfreemem (Some ''<a b>'')]\<rparr>))"
  using
    quote_string_cases [where E = sim_env and st = sim_disconnected
      and e = "Rcpp_stop ''Disconnected''" and ?st1.0 = sim_disconnected and x = None
      and ?st2.0 = sim_state and ?st4.0 = sim_state and r' = 0 and s = "''a b''" and b = "''<a b>''"]
    quote_string_cases [where E = sim_env and st = sim_state
      and e = Undefined_behaviour and ?st1.0 = sim_state and x = None
      and ?st2.0 = "sim_state\<lparr>calls := [Call_PQstatus (Some 7) CONNECTION_OK]\<rparr>"
      and ?st4.0 = "sim_state\<lparr>world := sim_world\<lparr>sim_heap := 41\<rparr>,
           calls := [Call_PQstatus (Some 7) CONNECTION_OK, Call_Rf_mkCharCE ''NULL'' 40,
                     Call_PQstatus (Some 7) CONNECTION_OK],
           null_static := Some 40\<rparr>"
      and r' = 0 and s = "''a b''" and b = "''<a b>''"]
    quote_string_cases [where E = sim_env
      and st = "sim_state\<lparr>world := sim_world\<lparr>sim_heap := 41\<rparr>,
            calls := [Call_PQstatus (Some 7) CONNECTION_OK, Call_Rf_mkCharCE ''NULL'' 40],
            null_static := Some 40\<rparr>"
      and e = Undefined_behaviour and ?st1.0 = sim_state and x = None
      and ?st2.0 = "sim_state\<lparr>world := sim_world\<lparr>sim_heap := 41\<rparr>,
           calls := [Call_PQstatus (Some 7) CONNECTION_OK, Call_Rf_mkCharCE ''NULL'' 40,
                     Call_PQstatus (Some 7) CONNECTION_OK],
           null_static := Some 40\<rparr>"
      and ?st4.0 = sim_state and r' = 40 and s = "''a b''" and b = "''<a b>''"]
  by (simp add: quote_defs sim_defs)

text \<open>
  Claim C7.  For a present input \<open>quote_string\<close> is to escape the string with
  \<open>PQescapeLiteral\<close> and release the buffer before it returns.  The code does not
  test the pointer that \<open>PQescapeLiteral\<close> returns, which is NULL when the string
  cannot be escaped: on a live connection, for the one-byte string \<open>0xC3\<close>, the
  NULL goes into \<open>Rf_mkCharCE\<close>, which has no defined behaviour on it;
  \<open>PQfreemem\<close> is not reached and nothing is returned.  (\<open>cancel_query\<close> does
  test the pointer it gets from \<open>PQgetCancel\<close>.)
\<close>

theorem quote_string_null_buffer:
  "check_connection sim_env_strict sim_state =
     (Inr (), sim_state\<lparr>calls := [Call_PQstatus (Some 7) CONNECTION_OK]\<rparr>)
   \<and> quote_string sim_env_strict (Some [CHR 0xC3]) sim_state =
       (Inl Undefined_behaviour,
        sim_state\<lparr>calls := [Call_PQstatus (Some 7) CONNECTION_OK,
                            Call_PQescapeLiteral (Some 7) [CHR 0xC3] None]\<rparr>)"
  by (simp add: quote_defs sim_env_strict_def sim_defs)

text \<open>
  Claim C4, as the code has it.  \<open>quote_identifier\<close> begins with
  \<open>check_connection\<close>, as \<open>quote_string\<close> does.  Without a handle it stops with
  "Disconnected"; with one, its first library call is the \<open>PQstatus\<close> of the check.
  When the check raises, both functions raise that error and no escaping routine has
  been called; when it passes, the next call is \<open>PQescapeIdentifier\<close>
  (\<open>PQescapeLiteral\<close> in \<open>quote_string\<close>).
\<close>

theorem quote_identifier_checks:
  "(pConn (this st) = None \<longrightarrow>
      quote_identifier E x st = (Inl (Rcpp_stop ''Disconnected''), st))
   \<and> (pConn (this st) \<noteq> None \<longrightarrow>
      (\<exists>rest. calls (snd (quote_identifier E x st)) =
         calls st @ Call_PQstatus (pConn (this st)) (PQstatus E (pConn (this st)) (world st)) # rest))
   \<and> (check_connection E st = (Inl e, st1) \<longrightarrow>
        quote_identifier E x st = (Inl e, st1) \<and> quote_string E y st = (Inl e, st1)
        \<and> filter is_escape (calls st1) = filter is_escape (calls st))
   \<and> (check_connection E st = (Inr (), st2) \<longrightarrow>
        (\<exists>rest. calls (snd (quote_identifier E x st)) =
           calls st2 @ Call_PQescapeIdentifier (pConn (this st)) x
                         (fst (PQescapeIdentifier E (pConn (this st)) x (world st2))) # rest)
        \<and> (\<exists>rest. calls (snd (quote_string E (Some s) st)) =
           calls st2 @ Call_PQescapeLiteral (pConn (this st)) s
                         (fst (PQescapeLiteral E (pConn (this st)) s (world st2))) # rest))"
proof (intro conjI impI)
  show "quote_identifier E x st = (Inl (Rcpp_stop ''Disconnected''), st)" if "pConn (this st) = None"
    using that by (simp add: quote_identifier_def check_connection_def)
next
  assume c: "pConn (this st) \<noteq> None"
  obtain r1 st1 where cc: "check_connection E st = (r1, st1)"
    by (cases "check_connection E st")
  from c cc have "\<exists>rest. calls st1 =
      calls st @ Call_PQstatus (pConn (this st)) (PQstatus E (pConn (this st)) (world st)) # rest"
    by (auto simp: check_connection_def conn_stop_def Let_def split: if_splits)
  then obtain rest where st1: "calls st1 =
      calls st @ Call_PQstatus (pConn (this st)) (PQstatus E (pConn (this st)) (world st)) # rest"
    by blast
  show "\<exists>rest. calls (snd (quote_identifier E x st)) =
         calls st @ Call_PQstatus (pConn (this st)) (PQstatus E (pConn (this st)) (world st)) # rest"
  proof (cases r1)
    case (Inl e)
    with cc st1 show ?thesis by (simp add: quote_identifier_def)
  next
    case (Inr u)
    with cc st1 show ?thesis
      by (auto simp: quote_identifier_def Let_def split: prod.splits option.splits)
  qed
next
  assume a: "check_connection E st = (Inl e, st1)"
  then show "quote_identifier E x st = (Inl e, st1)" by (simp add: quote_identifier_def)
  from a show "quote_string E y st = (Inl e, st1)" by (simp add: quote_string_def)
  from a show "filter is_escape (calls st1) = filter is_escape (calls st)"
    by (auto simp: check_connection_def conn_stop_def Let_def is_escape_def split: if_splits)
next
  assume a: "check_connection E st = (Inr (), st2)"
  with check_connection_frame [of E st "Inr ()" st2] have t: "this st2 = this st"
    by simp
  from a t show "\<exists>rest. calls (snd (quote_identifier E x st)) =
           calls st2 @ Call_PQescapeIdentifier (pConn (this st)) x
                         (fst (PQescapeIdentifier E (pConn (this st)) x (world st2))) # rest"
    by (auto simp: quote_identifier_def Let_def split: prod.splits option.splits)
  from a t show "\<exists>rest. calls (snd (quote_string E (Some s) st)) =
           calls st2 @ Call_PQescapeLiteral (pConn (this st)) s
                         (fst (PQescapeLiteral E (pConn (this st)) s (world st2))) # rest"
    by (auto simp: quote_string_def Let_def split: prod.splits option.splits)
qed

theorem quote_identifier_checks_witness:
  "(pConn (this sim_disconnected) = None
    \<and> quote_identifier sim_env ''a b'' sim_disconnected =
        (Inl (Rcpp_stop ''Disconnected''), sim_disconnected))
   \<and> (pConn (this sim_lost) \<noteq> None
    \<and> check_connection sim_env sim_lost =
        (Inl (Rcpp_stop ''Lost connection to database: server closed''),
         sim_lost\<lparr>calls := [Call_PQstatus (Some 7) CONNECTION_BAD, Call_PQreset (Some 7),
                            Call_PQstatus (Some 7) CONNECTION_BAD,
                            Call_PQerrorMessage (Some 7) ''server closed'']\<rparr>)
    \<and> quote_identifier sim_env ''a b'' sim_lost =
        (Inl (Rcpp_stop ''Lost connection to database: server closed''),
         sim_lost\<lparr>calls := [Call_PQstatus (Some 7) CONNECTION_BAD, Call_PQreset (Some 7),
                            Call_PQstatus (Some 7) CONNECTION_BAD,
                            Call_PQerrorMessage (Some 7) ''server closed'']\<rparr>))
   \<and> (check_connection sim_env sim_state =
        (Inr (), sim_state\<lparr>calls := [Call_PQstatus (Some 7) CONNECTION_OK]\<rparr>)
    \<and> quote_identifier sim_env ''a b'' sim_state =
        (Inr 40, sim_state\<lparr>world := sim_world\<lparr>sim_heap := 41\<rparr>,
           calls := [Call_PQstatus (Some 7) CONNECTION_OK,
                     Call_PQescapeIdentifier (Some 7) ''a b'' (Some ''[a b]''),
                     Call_Rf_mkCharCE ''[a b]'' 40, Call_PQfreemem (Some ''[a b]'')]\<rparr>))"
  using
    quote_identifier_checks [where E = sim_env and st = sim_disconnected and x = "''a b''"
      and y = None and s = "''a b''" and e = "Rcpp_stop ''Disconnected''"
      and ?st1.0 = sim_disconnected and ?st2.0 = sim_state]
    quote_identifier_checks [where E = sim_env and st = sim_lost and x = "''a b''"
      and y = None and s = "''a b''"
      and e = "Rcpp_stop ''Lost connection to database: server closed''"
      and ?st1.0 = "sim_lost\<lparr>calls := [Call_PQstatus (Some 7) CONNECTION_BAD, Call_PQreset (Some 7),
                            Call_PQstatus (Some 7) CONNECTION_BAD,
                            Call_PQerrorMessage (Some 7) ''server closed'']\<rparr>"
      and ?st2.0 = sim_state]
    quote_identifier_checks [where E = sim_env and st = sim_state and x = "''a b''"
      and y = None and s = "''a b''" and e = Undefined_behaviour
      and ?st1.0 = sim_state
      and ?st2.0 = "sim_state\<lparr>calls := [Call_PQstatus (Some 7) CONNECTION_OK]\<rparr>"]
  by (simp add: quote_defs sim_defs)

text \<open>
  Claim C4 as stated fails: on a disconnected object, and on a connection that a reset
  does not bring back, \<open>quote_identifier\<close> raises the error of the connection check
  and never reaches \<open>PQescapeIdentifier\<close>.
\<close>

theorem quote_identifier_counterexample:
  "quote_identifier sim_env ''a b'' sim_disconnected =
     (Inl (Rcpp_stop ''Disconnected''), sim_disconnected)
   \<and> quote_identifier sim_env ''a b'' sim_lost =
       (Inl (Rcpp_stop ''Lost connection to database: server closed''),
        sim_lost\<lparr>calls := [Call_PQstatus (Some 7) CONNECTION_BAD, Call_PQreset (Some 7),
                           Call_PQstatus (Some 7) CONNECTION_BAD,
                           Call_PQerrorMessage (Some 7) ''server closed'']\<rparr>)"
  by (simp add: quote_defs sim_defs)

end
